theory Spec2Isabelle
  imports Complex_Main "HOL-Library.Multiset" "HOL-Library.Sublist"
begin

section \<open>Python values used by \<open>build_data.py\<close>\<close>

subsection \<open>Floats: IEEE 754 binary64, round to nearest, ties to even\<close>

text \<open>
  A Python \<open>float\<close> is a binary64 number. A finite one is modelled by the rational number
  it denotes; \<open>-0.0\<close> and \<open>0.0\<close> are identified (Python's comparisons do not tell
  them apart, and no operation used by the program divides by a float zero without raising).
  Every arithmetic operation returns the exact result rounded to the nearest binary64
  number, ties to the one with an even significand.
\<close>

datatype double = Finite rat | PosInf | NegInf | NaN

text \<open>The number of binary digits of a positive integer (Python's \<open>int.bit_length\<close>).\<close>

function bit_length :: "int \<Rightarrow> int" where
  "bit_length n = (if n \<le> 0 then 0 else 1 + bit_length (n div 2))"
  by pat_completeness auto
termination
  by (relation "measure nat") auto

declare bit_length.simps [simp del]

text \<open>For \<open>0 < x\<close>, the exponent \<open>e\<close> with \<open>2 ^ e \<le> x < 2 ^ (e + 1)\<close>.\<close>

definition floor_log2 :: "rat \<Rightarrow> int" where
  "floor_log2 x =
     (if 1 \<le> x then bit_length \<lfloor>x\<rfloor> - 1 else - bit_length (\<lceil>1 / x\<rceil> - 1))"

definition round_half_even :: "rat \<Rightarrow> int" where
  "round_half_even x =
     (let f = \<lfloor>x\<rfloor>; d = x - of_int f
      in if d < 1 / 2 then f
         else if 1 / 2 < d then f + 1
         else if even f then f else f + 1)"

text \<open>
  The spacing of binary64 numbers around \<open>x\<close>: 53 significant bits, the exponent
  bounded below by that of the smallest normal number (below it, the numbers are subnormal
  and evenly spaced).
\<close>

definition quantum :: "rat \<Rightarrow> rat" where
  "quantum x = 2 powi (max (floor_log2 \<bar>x\<bar>) (- 1022) - 52)"

definition round_binary64 :: "rat \<Rightarrow> rat" where
  "round_binary64 x =
     (if x = 0 then 0 else of_int (round_half_even (x / quantum x)) * quantum x)"

text \<open>A rounded result whose exponent exceeds 1023 overflows to an infinity.\<close>

definition to_double :: "rat \<Rightarrow> double" where
  "to_double x =
     (let r = round_binary64 x
      in if r = 0 \<or> floor_log2 \<bar>r\<bar> \<le> 1023 then Finite r
         else if 0 < r then PosInf else NegInf)"

definition is_zero :: "double \<Rightarrow> bool" where
  "is_zero a = (a = Finite 0)"

fun is_negative :: "double \<Rightarrow> bool" where
  "is_negative (Finite x) = (x < 0)"
| "is_negative NegInf = True"
| "is_negative PosInf = False"
| "is_negative NaN = False"

fun float_add :: "double \<Rightarrow> double \<Rightarrow> double" where
  "float_add (Finite x) (Finite y) = to_double (x + y)"
| "float_add NaN b = NaN"
| "float_add a NaN = NaN"
| "float_add PosInf NegInf = NaN"
| "float_add NegInf PosInf = NaN"
| "float_add PosInf b = PosInf"
| "float_add NegInf b = NegInf"
| "float_add (Finite x) b = b"

fun float_mul :: "double \<Rightarrow> double \<Rightarrow> double" where
  "float_mul (Finite x) (Finite y) = to_double (x * y)"
| "float_mul a b =
     (if a = NaN \<or> b = NaN \<or> is_zero a \<or> is_zero b then NaN
      else if is_negative a = is_negative b then PosInf else NegInf)"

text \<open>IEEE division by a divisor that is not zero.\<close>

fun float_div :: "double \<Rightarrow> double \<Rightarrow> double" where
  "float_div (Finite x) (Finite y) = to_double (x / y)"
| "float_div NaN b = NaN"
| "float_div a NaN = NaN"
| "float_div (Finite x) b = Finite 0"
| "float_div a (Finite y) = (if is_negative a = (y < 0) then PosInf else NegInf)"
| "float_div a b = NaN"

declare float_add.simps [simp del] float_mul.simps [simp del] float_div.simps [simp del]

text \<open>Python's \<open><\<close>, \<open>></\<close> and \<open>==\<close> on floats: every comparison with NaN is false.\<close>

fun float_lt :: "double \<Rightarrow> double \<Rightarrow> bool" where
  "float_lt (Finite x) (Finite y) = (x < y)"
| "float_lt NaN b = False"
| "float_lt a NaN = False"
| "float_lt a NegInf = False"
| "float_lt PosInf b = False"
| "float_lt NegInf b = True"
| "float_lt (Finite x) PosInf = True"

definition float_gt :: "double \<Rightarrow> double \<Rightarrow> bool" where
  "float_gt a b = float_lt b a"

definition float_eq :: "double \<Rightarrow> double \<Rightarrow> bool" where
  "float_eq a b = (a \<noteq> NaN \<and> a = b)"

text \<open>A decimal literal such as \<open>20.9\<close> denotes the binary64 number nearest to it.\<close>

definition py_float :: "rat \<Rightarrow> double" where
  "py_float q = to_double q"

subsection \<open>Exceptions and mixed arithmetic\<close>

datatype py_error = KeyError | OverflowError | ZeroDivisionError

text \<open>
  Where an operand of a float operation is an \<open>int\<close>, Python converts it first, rounding
  correctly, and raises \<open>OverflowError\<close> when the integer is beyond the range of binary64.
\<close>

definition float_of_int :: "int \<Rightarrow> py_error + double" where
  "float_of_int n =
     (case to_double (of_int n) of Finite r \<Rightarrow> Inr (Finite r) | _ \<Rightarrow> Inl OverflowError)"

text \<open>\<open>a / b\<close> on floats raises \<open>ZeroDivisionError\<close> when \<open>b\<close> is zero.\<close>

definition float_truediv :: "double \<Rightarrow> double \<Rightarrow> py_error + double" where
  "float_truediv a b = (if is_zero b then Inl ZeroDivisionError else Inr (float_div a b))"

definition float_truediv_int :: "double \<Rightarrow> int \<Rightarrow> py_error + double" where
  "float_truediv_int a n =
     (case float_of_int n of Inl e \<Rightarrow> Inl e | Inr b \<Rightarrow> float_truediv a b)"

definition float_mul_int :: "double \<Rightarrow> int \<Rightarrow> py_error + double" where
  "float_mul_int a n =
     (case float_of_int n of Inl e \<Rightarrow> Inl e | Inr b \<Rightarrow> Inr (float_mul a b))"

text \<open>\<open>d.get(key, default)\<close> on a dictionary.\<close>

definition dict_get :: "('k \<rightharpoonup> 'v) \<Rightarrow> 'k \<Rightarrow> 'v \<Rightarrow> 'v" where
  "dict_get d k dflt = (case d k of None \<Rightarrow> dflt | Some v \<Rightarrow> v)"

section \<open>The county records\<close>

text \<open>
  Modelled from the spec: the class \<open>CountyDemographics\<close> of module \<open>data\<close>, which is
  not among the source files. A county is a record of mappings from labels to numbers; the
  fields are named as \<open>build_data.py\<close> reads them (\<open>county.education\<close>,
  \<open>county.ethnicity\<close>, \<open>county.income\<close>, \<open>county.demographics\<close>, \<open>county.state\<close>).
  The percentage mappings hold floats. Of \<open>income\<close> the program reads only the percentage
  \<open>Persons Below Poverty Level\<close>, and of \<open>demographics\<close> only the integer
  \<open>2014 Population\<close>: \<open>income\<close> is typed as a mapping to floats and
  \<open>demographics\<close> as a mapping to integers.
\<close>

record county_demographics =
  age :: "string \<rightharpoonup> double"
  name :: string
  education :: "string \<rightharpoonup> double"
  ethnicity :: "string \<rightharpoonup> double"
  income :: "string \<rightharpoonup> double"
  demographics :: "string \<rightharpoonup> int"
  state :: string

section \<open>The functions of \<open>build_data.py\<close>\<close>

subsection \<open>\<open>population_total\<close>\<close>

fun population_total_loop :: "int \<Rightarrow> county_demographics list \<Rightarrow> py_error + int" where
  "population_total_loop total_population [] = Inr total_population"
| "population_total_loop total_population (county # counties) =
     (case demographics county ''2014 Population'' of
        None \<Rightarrow> Inl KeyError
      | Some p \<Rightarrow> population_total_loop (total_population + p) counties)"

definition population_total :: "county_demographics list \<Rightarrow> py_error + int" where
  "population_total counties = population_total_loop 0 counties"

subsection \<open>\<open>filter_by_state\<close>\<close>

definition filter_by_state ::
  "county_demographics list \<Rightarrow> string \<Rightarrow> county_demographics list" where
  "filter_by_state counties state_abbr = [county \<leftarrow> counties. state county = state_abbr]"

subsection \<open>The sub-population functions\<close>

text \<open>
  The body of the three loops, \<open>total_population += (percent / 100) * county_population\<close>:
  the population is looked up first, then the division and the multiplication are floating
  point operations with an integer operand.
\<close>

fun population_by_education_loop ::
  "string \<Rightarrow> double \<Rightarrow> county_demographics list \<Rightarrow> py_error + double" where
  "population_by_education_loop education_key total_population [] = Inr total_population"
| "population_by_education_loop education_key total_population (county # counties) =
     (case education county education_key of
        None \<Rightarrow> population_by_education_loop education_key total_population counties
      | Some education_percent \<Rightarrow>
          (case demographics county ''2014 Population'' of
             None \<Rightarrow> Inl KeyError
           | Some county_population \<Rightarrow>
               (case float_truediv_int education_percent 100 of
                  Inl e \<Rightarrow> Inl e
                | Inr fraction \<Rightarrow>
                    (case float_mul_int fraction county_population of
                       Inl e \<Rightarrow> Inl e
                     | Inr part \<Rightarrow>
                         population_by_education_loop education_key
                           (float_add total_population part) counties))))"

definition population_by_education ::
  "county_demographics list \<Rightarrow> string \<Rightarrow> py_error + double" where
  "population_by_education counties education_key =
     population_by_education_loop education_key (Finite 0) counties"

fun population_by_ethnicity_loop ::
  "string \<Rightarrow> double \<Rightarrow> county_demographics list \<Rightarrow> py_error + double" where
  "population_by_ethnicity_loop ethnicity_key total_population [] = Inr total_population"
| "population_by_ethnicity_loop ethnicity_key total_population (county # counties) =
     (case ethnicity county ethnicity_key of
        None \<Rightarrow> population_by_ethnicity_loop ethnicity_key total_population counties
      | Some ethnicity_percent \<Rightarrow>
          (case demographics county ''2014 Population'' of
             None \<Rightarrow> Inl KeyError
           | Some county_population \<Rightarrow>
               (case float_truediv_int ethnicity_percent 100 of
                  Inl e \<Rightarrow> Inl e
                | Inr fraction \<Rightarrow>
                    (case float_mul_int fraction county_population of
                       Inl e \<Rightarrow> Inl e
                     | Inr part \<Rightarrow>
                         population_by_ethnicity_loop ethnicity_key
                           (float_add total_population part) counties))))"

definition population_by_ethnicity ::
  "county_demographics list \<Rightarrow> string \<Rightarrow> py_error + double" where
  "population_by_ethnicity counties ethnicity_key =
     population_by_ethnicity_loop ethnicity_key (Finite 0) counties"

fun population_below_poverty_level_loop ::
  "double \<Rightarrow> county_demographics list \<Rightarrow> py_error + double" where
  "population_below_poverty_level_loop total_population [] = Inr total_population"
| "population_below_poverty_level_loop total_population (county # counties) =
     (case income county ''Persons Below Poverty Level'' of
        None \<Rightarrow> population_below_poverty_level_loop total_population counties
      | Some poverty_percent \<Rightarrow>
          (case demographics county ''2014 Population'' of
             None \<Rightarrow> Inl KeyError
           | Some county_population \<Rightarrow>
               (case float_truediv_int poverty_percent 100 of
                  Inl e \<Rightarrow> Inl e
                | Inr fraction \<Rightarrow>
                    (case float_mul_int fraction county_population of
                       Inl e \<Rightarrow> Inl e
                     | Inr part \<Rightarrow>
                         population_below_poverty_level_loop
                           (float_add total_population part) counties))))"

definition population_below_poverty_level ::
  "county_demographics list \<Rightarrow> py_error + double" where
  "population_below_poverty_level counties =
     population_below_poverty_level_loop (Finite 0) counties"

subsection \<open>The percent functions\<close>

text \<open>
  Both totals are computed before the guard \<open>if total_population > 0\<close>; the quotient is
  taken first and multiplied by 100 afterwards.
\<close>

definition percent_by_education ::
  "county_demographics list \<Rightarrow> string \<Rightarrow> py_error + double" where
  "percent_by_education counties education_key =
     (case population_total counties of
        Inl e \<Rightarrow> Inl e
      | Inr total_population \<Rightarrow>
          (case population_by_education counties education_key of
             Inl e \<Rightarrow> Inl e
           | Inr education_population \<Rightarrow>
               if 0 < total_population then
                 (case float_truediv_int education_population total_population of
                    Inl e \<Rightarrow> Inl e
                  | Inr ratio \<Rightarrow> float_mul_int ratio 100)
               else Inr (Finite 0)))"

definition percent_by_ethnicity ::
  "county_demographics list \<Rightarrow> string \<Rightarrow> py_error + double" where
  "percent_by_ethnicity counties ethnicity_key =
     (case population_total counties of
        Inl e \<Rightarrow> Inl e
      | Inr total_population \<Rightarrow>
          (case population_by_ethnicity counties ethnicity_key of
             Inl e \<Rightarrow> Inl e
           | Inr ethnicity_population \<Rightarrow>
               if 0 < total_population then
                 (case float_truediv_int ethnicity_population total_population of
                    Inl e \<Rightarrow> Inl e
                  | Inr ratio \<Rightarrow> float_mul_int ratio 100)
               else Inr (Finite 0)))"

definition percent_below_poverty_level :: "county_demographics list \<Rightarrow> py_error + double" where
  "percent_below_poverty_level counties =
     (case population_total counties of
        Inl e \<Rightarrow> Inl e
      | Inr total_population \<Rightarrow>
          (case population_below_poverty_level counties of
             Inl e \<Rightarrow> Inl e
           | Inr poverty_population \<Rightarrow>
               if 0 < total_population then
                 (case float_truediv_int poverty_population total_population of
                    Inl e \<Rightarrow> Inl e
                  | Inr ratio \<Rightarrow> float_mul_int ratio 100)
               else Inr (Finite 0)))"

subsection \<open>The threshold filters\<close>

text \<open>
  The default of \<open>get\<close> is the integer \<open>0\<close>; Python compares an integer with a float
  by value, so it compares as the float zero does.
\<close>

definition education_greater_than ::
  "county_demographics list \<Rightarrow> string \<Rightarrow> double \<Rightarrow> county_demographics list" where
  "education_greater_than counties education_key threshold =
     [county \<leftarrow> counties.
        float_gt (dict_get (education county) education_key (Finite 0)) threshold]"

definition education_less_than ::
  "county_demographics list \<Rightarrow> string \<Rightarrow> double \<Rightarrow> county_demographics list" where
  "education_less_than counties education_key threshold =
     [county \<leftarrow> counties.
        float_lt (dict_get (education county) education_key (Finite 0)) threshold]"

definition ethnicity_greater_than ::
  "county_demographics list \<Rightarrow> string \<Rightarrow> double \<Rightarrow> county_demographics list" where
  "ethnicity_greater_than counties ethnicity_key threshold =
     [county \<leftarrow> counties.
        float_gt (dict_get (ethnicity county) ethnicity_key (Finite 0)) threshold]"

definition ethnicity_less_than ::
  "county_demographics list \<Rightarrow> string \<Rightarrow> double \<Rightarrow> county_demographics list" where
  "ethnicity_less_than counties ethnicity_key threshold =
     [county \<leftarrow> counties.
        float_lt (dict_get (ethnicity county) ethnicity_key (Finite 0)) threshold]"

definition below_poverty_level_greater_than ::
  "county_demographics list \<Rightarrow> double \<Rightarrow> county_demographics list" where
  "below_poverty_level_greater_than counties threshold =
     [county \<leftarrow> counties.
        float_gt (dict_get (income county) ''Persons Below Poverty Level'' (Finite 0)) threshold]"

definition below_poverty_level_less_than ::
  "county_demographics list \<Rightarrow> double \<Rightarrow> county_demographics list" where
  "below_poverty_level_less_than counties threshold =
     [county \<leftarrow> counties.
        float_lt (dict_get (income county) ''Persons Below Poverty Level'' (Finite 0)) threshold]"

section \<open>Reference definitions\<close>

text \<open>
  What the specification says of the sub-population functions: for every county whose
  mapping contains the key, compute \<open>(percentage_value / 100) * population\<close>, and sum
  across counties (from \<open>0.0\<close>, in the order of the list).
\<close>

definition sub_population_part :: "double \<Rightarrow> county_demographics \<Rightarrow> py_error + double" where
  "sub_population_part percentage county =
     (case demographics county ''2014 Population'' of
        None \<Rightarrow> Inl KeyError
      | Some population \<Rightarrow>
          (case float_truediv_int percentage 100 of
             Inl e \<Rightarrow> Inl e
           | Inr fraction \<Rightarrow> float_mul_int fraction population))"

fun float_sum_from :: "double \<Rightarrow> (py_error + double) list \<Rightarrow> py_error + double" where
  "float_sum_from acc [] = Inr acc"
| "float_sum_from acc (Inl e # parts) = Inl e"
| "float_sum_from acc (Inr x # parts) = float_sum_from (float_add acc x) parts"

definition sub_population_spec ::
  "(county_demographics \<Rightarrow> string \<rightharpoonup> double) \<Rightarrow> string \<Rightarrow> county_demographics list \<Rightarrow>
   py_error + double" where
  "sub_population_spec mapping key counties =
     float_sum_from (Finite 0)
       (map (\<lambda>c. sub_population_part (the (mapping c key)) c)
          [c \<leftarrow> counties. mapping c key \<noteq> None])"

text \<open>
  What the specification says of the percent functions, as a Python expression over the two
  totals: \<open>100 * sub_population / total_population\<close> when the total is not zero, and
  \<open>0.0\<close> when it is.
\<close>

definition percent_claimed :: "double \<Rightarrow> int \<Rightarrow> py_error + double" where
  "percent_claimed sub_population n =
     (if n = 0 then Inr (Finite 0)
      else (case float_of_int 100 of
              Inl e \<Rightarrow> Inl e
            | Inr hundred \<Rightarrow> float_truediv_int (float_mul hundred sub_population) n))"

text \<open>
  What the percent functions compute from the two totals: nothing but \<open>0.0\<close> unless the
  total is positive; otherwise the quotient by the total (converted to a float), multiplied by
  \<open>100.0\<close>.
\<close>

definition percent_of :: "double \<Rightarrow> int \<Rightarrow> py_error + double" where
  "percent_of sub_population n =
     (if 0 < n then
        (case float_of_int n of
           Inl e \<Rightarrow> Inl e
         | Inr t \<Rightarrow> Inr (float_mul (float_div sub_population t) (Finite 100)))
      else Inr (Finite 0))"

definition zero_population :: "county_demographics \<Rightarrow> bool" where
  "zero_population c = (demographics c ''2014 Population'' = Some 0)"

definition population_nonneg :: "county_demographics \<Rightarrow> bool" where
  "population_nonneg c =
     (case demographics c ''2014 Population'' of None \<Rightarrow> False | Some p \<Rightarrow> 0 \<le> p)"

text \<open>The counties whose value for the key equals the threshold (Python's \<open>==\<close>).\<close>

definition education_equal_to ::
  "county_demographics list \<Rightarrow> string \<Rightarrow> double \<Rightarrow> county_demographics list" where
  "education_equal_to counties education_key threshold =
     [county \<leftarrow> counties.
        float_eq (dict_get (education county) education_key (Finite 0)) threshold]"

definition education_value_known :: "string \<Rightarrow> county_demographics \<Rightarrow> bool" where
  "education_value_known education_key county =
     (dict_get (education county) education_key (Finite 0) \<noteq> NaN)"

section \<open>Sample counties\<close>

text \<open>
  The first two counties of \<open>reduced_data\<close> in \<open>hw3_tests.py\<close>, with the entries that
  the model's types hold (the integer entries of \<open>income\<close> as the floats of the same
  value), a county with no entries at all, and a county with one percentage and one
  population.
\<close>

definition bachelors :: string where
  "bachelors = ''Bachelor's Degree or Higher''"

definition autauga :: county_demographics where
  "autauga =
     \<lparr> age = map_of [(''Percent 65 and Older'', py_float (138 / 10)),
                     (''Percent Under 18 Years'', py_float (252 / 10)),
                     (''Percent Under 5 Years'', py_float 6)],
       name = ''Autauga County'',
       education = map_of [(bachelors, py_float (209 / 10)),
                           (''High School or Higher'', py_float (856 / 10))],
       ethnicity = map_of [(''American Indian and Alaska Native Alone'', py_float (5 / 10)),
                           (''Asian Alone'', py_float (11 / 10)),
                           (''Black Alone'', py_float (187 / 10)),
                           (''Hispanic or Latino'', py_float (27 / 10)),
                           (''Native Hawaiian and Other Pacific Islander Alone'',
                            py_float (1 / 10)),
                           (''Two or More Races'', py_float (18 / 10)),
                           (''White Alone'', py_float (779 / 10)),
                           (''White Alone, not Hispanic or Latino'', py_float (756 / 10))],
       income = map_of [(''Per Capita Income'', Finite 24571),
                        (''Persons Below Poverty Level'', py_float (121 / 10)),
                        (''Median Household Income'', Finite 53682)],
       demographics = map_of [(''2010 Population'', 54571), (''2014 Population'', 55395)],
       state = ''AL'' \<rparr>"

definition crawford :: county_demographics where
  "crawford =
     \<lparr> age = map_of [(''Percent 65 and Older'', py_float (153 / 10)),
                     (''Percent Under 18 Years'', py_float (251 / 10)),
                     (''Percent Under 5 Years'', py_float 6)],
       name = ''Crawford County'',
       education = map_of [(bachelors, py_float (143 / 10)),
                           (''High School or Higher'', py_float (822 / 10))],
       ethnicity = map_of [(''American Indian and Alaska Native Alone'', py_float (25 / 10)),
                           (''Asian Alone'', py_float (16 / 10)),
                           (''Black Alone'', py_float (16 / 10)),
                           (''Hispanic or Latino'', py_float (67 / 10)),
                           (''Native Hawaiian and Other Pacific Islander Alone'',
                            py_float (1 / 10)),
                           (''Two or More Races'', py_float (28 / 10)),
                           (''White Alone'', py_float (915 / 10)),
                           (''White Alone, not Hispanic or Latino'', py_float (856 / 10))],
       income = map_of [(''Per Capita Income'', Finite 19477),
                        (''Persons Below Poverty Level'', py_float (202 / 10)),
                        (''Median Household Income'', Finite 39479)],
       demographics = map_of [(''2010 Population'', 61948), (''2014 Population'', 61697)],
       state = ''AR'' \<rparr>"

definition bare_county :: county_demographics where
  "bare_county =
     \<lparr> age = map_of [], name = ''Nowhere'', education = map_of [], ethnicity = map_of [],
       income = map_of [], demographics = map_of [], state = ''ZZ'' \<rparr>"

definition sample_county :: "string \<Rightarrow> double \<Rightarrow> int \<Rightarrow> county_demographics" where
  "sample_county st percent population =
     \<lparr> age = map_of [], name = ''Sample County'',
       education = map_of [(bachelors, percent)],
       ethnicity = map_of [(''Hispanic or Latino'', percent)],
       income = map_of [(''Persons Below Poverty Level'', percent)],
       demographics = map_of [(''2014 Population'', population)],
       state = st \<rparr>"

section \<open>Properties of the float operations\<close>

subsection \<open>A positive integer never converts to zero\<close>

lemma bit_length_pos: "0 < n \<Longrightarrow> 0 < bit_length n"
proof (induction n rule: bit_length.induct)
  case (1 n)
  have "0 \<le> bit_length (n div 2)"
  proof (cases "n div 2 \<le> 0")
    case True
    then show ?thesis by (subst bit_length.simps) simp
  next
    case False
    with "1.IH" "1.prems" show ?thesis by simp
  qed
  with "1.prems" show ?case by (subst bit_length.simps) simp
qed

lemma bit_length_lower: "0 < n \<Longrightarrow> 2 ^ nat (bit_length n - 1) \<le> n"
proof (induction n rule: bit_length.induct)
  case (1 n)
  have unfold: "bit_length n = 1 + bit_length (n div 2)"
    using "1.prems" by (subst bit_length.simps) simp
  show ?case
  proof (cases "n div 2 \<le> 0")
    case True
    then have "bit_length (n div 2) = 0" by (subst bit_length.simps) simp
    with unfold "1.prems" show ?thesis by simp
  next
    case False
    then have pos: "0 < n div 2" by simp
    with "1.IH" "1.prems" have ih: "2 ^ nat (bit_length (n div 2) - 1) \<le> n div 2" by simp
    from bit_length_pos [OF pos] have "nat (bit_length n - 1) = Suc (nat (bit_length (n div 2) - 1))"
      using unfold by simp
    then have "(2::int) ^ nat (bit_length n - 1) = 2 * 2 ^ nat (bit_length (n div 2) - 1)"
      by simp
    also have "\<dots> \<le> 2 * (n div 2)" using ih by simp
    also have "\<dots> \<le> n" by simp
    finally show ?thesis .
  qed
qed

lemma floor_log2_lower:
  assumes "1 \<le> x"
  shows "0 \<le> floor_log2 x" and "2 powi floor_log2 x \<le> x"
proof -
  from assms have n: "0 < \<lfloor>x\<rfloor>" by simp
  have e: "floor_log2 x = bit_length \<lfloor>x\<rfloor> - 1"
    using assms by (simp add: floor_log2_def)
  from bit_length_pos [OF n] e show e0: "0 \<le> floor_log2 x" by simp
  then have "(2::rat) powi floor_log2 x = 2 ^ nat (bit_length \<lfloor>x\<rfloor> - 1)"
    by (simp add: power_int_def e)
  also have "\<dots> = of_int (2 ^ nat (bit_length \<lfloor>x\<rfloor> - 1))" by simp
  also have "\<dots> \<le> of_int \<lfloor>x\<rfloor>"
    using bit_length_lower [OF n] by (simp only: of_int_le_iff)
  also have "\<dots> \<le> x" by simp
  finally show "2 powi floor_log2 x \<le> x" .
qed

lemma quantum_pos: "0 < quantum x"
  by (simp add: quantum_def)

lemma round_half_even_ge_floor: "\<lfloor>x\<rfloor> \<le> round_half_even x"
  by (simp add: round_half_even_def Let_def)

lemma round_binary64_pos:
  assumes "1 \<le> x"
  shows "0 < round_binary64 x"
proof -
  from floor_log2_lower [OF assms] have e0: "0 \<le> floor_log2 x" and le: "2 powi floor_log2 x \<le> x"
    by simp_all
  from assms have ax: "\<bar>x\<bar> = x" by simp
  have "quantum x = 2 powi (floor_log2 x - 52)"
    using e0 by (simp add: quantum_def ax max_def)
  also have "\<dots> = 2 powi floor_log2 x / 2 ^ 52"
    by (simp add: power_int_diff)
  also have "\<dots> \<le> 2 powi floor_log2 x" by (simp add: divide_le_eq)
  also note le
  finally have "quantum x \<le> x" .
  with quantum_pos [of x] have "1 \<le> x / quantum x"
    by (simp add: le_divide_eq)
  then have "1 \<le> \<lfloor>x / quantum x\<rfloor>" by simp
  with round_half_even_ge_floor [of "x / quantum x"]
  have "0 < round_half_even (x / quantum x)" by linarith
  with quantum_pos [of x] assms show ?thesis
    by (simp add: round_binary64_def)
qed

lemma float_of_int_pos_nonzero:
  assumes "0 < n" and "float_of_int n = Inr b"
  shows "\<not> is_zero b"
proof -
  from assms(1) have "1 \<le> (of_int n :: rat)" by simp
  from round_binary64_pos [OF this] have "round_binary64 (of_int n) \<noteq> 0" by simp
  with assms(2) show ?thesis
    by (auto simp: float_of_int_def to_double_def Let_def is_zero_def split: if_splits)
qed

lemma to_double_0: "to_double 0 = Finite 0"
  by (simp add: to_double_def round_binary64_def)

lemma float_of_int_0: "float_of_int 0 = Inr (Finite 0)"
  by (simp add: float_of_int_def to_double_0)

lemma float_of_int_100: "float_of_int 100 = Inr (Finite 100)"
  by code_simp

lemma float_truediv_int_100: "float_truediv_int a 100 = Inr (float_div a (Finite 100))"
  by (simp add: float_truediv_int_def float_of_int_100 float_truediv_def is_zero_def)

lemma float_mul_int_100: "float_mul_int a 100 = Inr (float_mul a (Finite 100))"
  by (simp add: float_mul_int_def float_of_int_100)

lemma float_of_int_error: "float_of_int n = Inl e \<Longrightarrow> e = OverflowError"
  by (auto simp: float_of_int_def split: double.splits)

lemma float_mul_int_error: "float_mul_int a n = Inl e \<Longrightarrow> e = OverflowError"
  by (auto simp: float_mul_int_def split: sum.splits dest: float_of_int_error)

lemma float_mul_int_0: "float_mul_int a 0 = Inr (float_mul a (Finite 0))"
  by (simp add: float_mul_int_def float_of_int_0)

subsection \<open>The rounding is to nearest\<close>

text \<open>
  \<open>floor_log2\<close> is the binary exponent of a positive number, and the rounded value is
  within half a \<open>quantum\<close> of the exact one; a tie goes to the even significand.
\<close>

lemma bit_length_nonneg: "0 \<le> bit_length n"
proof (cases "0 < n")
  case True
  from bit_length_pos [OF this] show ?thesis by simp
next
  case False
  then show ?thesis by (subst bit_length.simps) simp
qed

lemma bit_length_upper: "n < 2 ^ nat (bit_length n)"
proof (induction n rule: bit_length.induct)
  case (1 n)
  show ?case
  proof (cases "n \<le> 0")
    case True
    then have "bit_length n = 0" by (subst bit_length.simps) simp
    with True show ?thesis by simp
  next
    case False
    then have unfold: "bit_length n = 1 + bit_length (n div 2)"
      by (subst bit_length.simps) simp
    from False "1.IH" have ih: "n div 2 < 2 ^ nat (bit_length (n div 2))" by simp
    have "nat (bit_length n) = Suc (nat (bit_length (n div 2)))"
      using unfold bit_length_nonneg [of "n div 2"] by simp
    then have "(2::int) ^ nat (bit_length n) = 2 * 2 ^ nat (bit_length (n div 2))"
      by simp
    moreover have "n < 2 * (n div 2 + 1)" by presburger
    moreover from ih have "2 * (n div 2 + 1) \<le> 2 * 2 ^ nat (bit_length (n div 2))"
      by simp
    ultimately show ?thesis by linarith
  qed
qed

lemma floor_log2_bounds:
  assumes "0 < x"
  shows "2 powi floor_log2 x \<le> x \<and> x < 2 powi (floor_log2 x + 1)"
proof (cases "1 \<le> x")
  case True
  let ?n = "\<lfloor>x\<rfloor>"
  from True have n: "0 < ?n" by simp
  have e: "floor_log2 x = bit_length ?n - 1"
    using True by (simp add: floor_log2_def)
  have "?n + 1 \<le> 2 ^ nat (bit_length ?n)"
    using bit_length_upper [of ?n] by simp
  then have "(of_int (?n + 1) :: rat) \<le> of_int (2 ^ nat (bit_length ?n))"
    by (simp only: of_int_le_iff)
  moreover have "x < of_int (?n + 1)" by linarith
  ultimately have "x < (of_int (2 ^ nat (bit_length ?n)) :: rat)" by simp
  also have "\<dots> = 2 powi (floor_log2 x + 1)"
    using bit_length_pos [OF n] by (simp add: e power_int_def)
  finally have "x < 2 powi (floor_log2 x + 1)" .
  with floor_log2_lower(2) [OF True] show ?thesis by simp
next
  case False
  with assms have x: "0 < x" "x < 1" by simp_all
  let ?y = "1 / x"
  let ?m = "\<lceil>?y\<rceil> - 1"
  let ?b = "bit_length ?m"
  from x have y: "1 < ?y" by simp
  then have "1 < \<lceil>?y\<rceil>" by (simp add: less_ceiling_iff)
  then have m: "0 < ?m" by simp
  have e: "floor_log2 x = - ?b"
    using False by (simp add: floor_log2_def)
  have b: "0 < ?b" using m by (rule bit_length_pos)
  have "\<lceil>?y\<rceil> \<le> 2 ^ nat ?b"
    using bit_length_upper [of ?m] by simp
  then have "(of_int \<lceil>?y\<rceil> :: rat) \<le> of_int (2 ^ nat ?b)"
    by (simp only: of_int_le_iff)
  then have "(of_int \<lceil>?y\<rceil> :: rat) \<le> 2 ^ nat ?b"
    by simp
  moreover have "?y \<le> of_int \<lceil>?y\<rceil>"
    by (rule le_of_int_ceiling)
  ultimately have up: "?y \<le> 2 ^ nat ?b"
    by (rule order_trans [rotated])
  have "(of_int (2 ^ nat (?b - 1)) :: rat) \<le> of_int ?m"
    using bit_length_lower [OF m] by (simp only: of_int_le_iff)
  also have "of_int ?m < ?y" by linarith
  finally have low: "2 ^ nat (?b - 1) < ?y" by simp
  have p1: "(2::rat) powi floor_log2 x = 1 / 2 ^ nat ?b"
    using b by (simp add: e power_int_def field_simps)
  have p2: "(2::rat) powi (floor_log2 x + 1) = 1 / 2 ^ nat (?b - 1)"
  proof -
    have "floor_log2 x + 1 = - (?b - 1)" by (simp add: e)
    moreover have "0 \<le> ?b - 1" using b by simp
    ultimately show ?thesis
      by (cases "?b - 1 = 0") (simp_all add: power_int_def field_simps)
  qed
  from up x have "1 / 2 ^ nat ?b \<le> x"
    by (simp add: field_simps)
  moreover from low x have "x < 1 / 2 ^ nat (?b - 1)"
    by (simp add: field_simps)
  ultimately show ?thesis by (simp add: p1 p2)
qed

lemma round_half_even_error: "\<bar>of_int (round_half_even x) - x\<bar> \<le> 1 / 2"
proof -
  let ?f = "\<lfloor>x\<rfloor>"
  let ?d = "x - of_int ?f"
  have d: "0 \<le> ?d" "?d < 1" by linarith+
  consider (down) "?d < 1 / 2" | (up) "1 / 2 < ?d" | (tie) "?d = 1 / 2"
    by linarith
  then show ?thesis
  proof cases
    case down
    then have "round_half_even x = ?f" by (simp add: round_half_even_def Let_def)
    with d down show ?thesis by simp
  next
    case up
    then have "round_half_even x = ?f + 1" by (simp add: round_half_even_def Let_def)
    with d up show ?thesis by simp
  next
    case tie
    then have "round_half_even x = ?f \<or> round_half_even x = ?f + 1"
      by (simp add: round_half_even_def Let_def)
    with tie show ?thesis by auto
  qed
qed

lemma round_half_even_tie: "even (round_half_even (of_int k + 1 / 2))"
  by (simp add: round_half_even_def Let_def)

lemma round_half_even_int: "round_half_even (of_int k) = k"
  by (simp add: round_half_even_def Let_def)

lemma round_binary64_error: "\<bar>round_binary64 x - x\<bar> \<le> quantum x / 2"
proof (cases "x = 0")
  case True
  then show ?thesis using quantum_pos [of 0] by (simp add: round_binary64_def)
next
  case False
  let ?q = "quantum x"
  let ?m = "round_half_even (x / ?q)"
  have q: "0 < ?q" by (rule quantum_pos)
  have "round_binary64 x - x = (of_int ?m - x / ?q) * ?q"
    using False q by (simp add: round_binary64_def field_simps)
  then have "\<bar>round_binary64 x - x\<bar> = \<bar>of_int ?m - x / ?q\<bar> * ?q"
    using q by (simp add: abs_mult)
  also have "\<dots> \<le> 1 / 2 * ?q"
    using round_half_even_error [of "x / ?q"] q by (intro mult_right_mono) simp_all
  finally show ?thesis by simp
qed

subsection \<open>Comparisons\<close>

lemma float_lt_irrefl: "\<not> float_lt a a"
  by (cases a) simp_all

lemma float_lt_asym: "float_lt a b \<Longrightarrow> \<not> float_lt b a"
  by (cases a; cases b) simp_all

lemma float_trichotomy:
  assumes "a \<noteq> NaN" and "b \<noteq> NaN"
  shows "float_lt a b \<or> float_eq a b \<or> float_gt a b"
  using assms by (cases a; cases b) (auto simp: float_eq_def float_gt_def)

lemma float_eq_not_lt: "float_eq a b \<Longrightarrow> \<not> float_lt a b \<and> \<not> float_gt a b"
  by (auto simp: float_eq_def float_gt_def float_lt_irrefl)

subsection \<open>Literals and operations evaluated\<close>

text \<open>
  Closed instances of the rounding function, each computed from the definitions. The
  fractions are the exact values of the binary64 numbers that Python prints as
  \<open>20.9\<close>, \<open>0.209\<close>, \<open>11577.555\<close>, \<open>0.20900000000000002\<close> and
  \<open>20.900000000000002\<close>.
\<close>

lemma literal_1: "py_float 1 = Finite 1"
  by code_simp

lemma literal_2_7: "py_float (27 / 10) = Finite (3039929748475085 / 1125899906842624)"
  by code_simp

lemma literal_14_3: "py_float (143 / 10) = Finite (4025092166962381 / 281474976710656)"
  by code_simp

lemma literal_20_9: "py_float (209 / 10) = Finite (2941413506626355 / 140737488355328)"
  by code_simp

lemma literal_11577_555: "py_float (11577555 / 1000) = Finite (1591207042964521 / 137438953472)"
  by code_simp

lemma literal_20_900000000000002:
  "py_float (20900000000000002 / 1000000000000000) = Finite (5882827013252711 / 281474976710656)"
  by code_simp

lemma step_fraction:
  "float_truediv_int (Finite (2941413506626355 / 140737488355328)) 100 =
   Inr (Finite (7530018576963469 / 36028797018963968))"
  by code_simp

lemma step_part:
  "float_mul_int (Finite (7530018576963469 / 36028797018963968)) 55395 =
   Inr (Finite (1591207042964521 / 137438953472))"
  by code_simp

lemma step_total:
  "float_add (Finite 0) (Finite (1591207042964521 / 137438953472)) =
   Finite (1591207042964521 / 137438953472)"
  by code_simp

lemma step_ratio:
  "float_truediv_int (Finite (1591207042964521 / 137438953472)) 55395 =
   Inr (Finite (3765009288481735 / 18014398509481984))"
  by code_simp

lemma step_percent:
  "float_mul_int (Finite (3765009288481735 / 18014398509481984)) 100 =
   Inr (Finite (5882827013252711 / 281474976710656))"
  by code_simp

section \<open>The scenario county evaluated\<close>

text \<open>
  A county with \<open>2014 Population = 55395\<close> and
  \<open>education["Bachelor's Degree or Higher"] = 20.9\<close>, alone in a list: every float
  operation of the two functions, in the order the program performs them.
\<close>

lemma single_county_sub_population:
  assumes "education c bachelors = Some (py_float (209 / 10))"
    and "demographics c ''2014 Population'' = Some 55395"
  shows "population_by_education [c] bachelors = Inr (Finite (1591207042964521 / 137438953472))"
  using assms
  by (simp add: population_by_education_def literal_20_9 step_fraction step_part step_total)

lemma single_county_total:
  assumes "demographics c ''2014 Population'' = Some 55395"
  shows "population_total [c] = Inr 55395"
  using assms by (simp add: population_total_def)

lemma single_county_percent:
  assumes "education c bachelors = Some (py_float (209 / 10))"
    and "demographics c ''2014 Population'' = Some 55395"
  shows "percent_by_education [c] bachelors = Inr (Finite (5882827013252711 / 281474976710656))"
  by (simp add: percent_by_education_def single_county_total [OF assms(2)]
      single_county_sub_population [OF assms] step_ratio step_percent)

section \<open>The total population\<close>

lemma population_total_loop_sum:
  "map (\<lambda>c. demographics c ''2014 Population'') counties = map Some ps \<Longrightarrow>
   population_total_loop acc counties = Inr (acc + sum_list ps)"
proof (induction counties arbitrary: acc ps)
  case Nil
  then show ?case by simp
next
  case (Cons c counties)
  then obtain p ps' where ps: "ps = p # ps'"
    by (cases ps) auto
  with Cons.prems have "demographics c ''2014 Population'' = Some p"
    and "map (\<lambda>c. demographics c ''2014 Population'') counties = map Some ps'"
    by auto
  with Cons.IH [of ps' "acc + p"] ps show ?case
    by simp
qed

lemma population_total_loop_missing:
  "list_ex (\<lambda>c. demographics c ''2014 Population'' = None) counties \<Longrightarrow>
   population_total_loop acc counties = Inl KeyError"
  by (induction counties arbitrary: acc) (auto split: option.splits)

text \<open>
  C1. When every county has its \<open>2014 Population\<close> entry (the one of the \<open>i\<close>-th
  county being the \<open>i\<close>-th element of \<open>ps\<close>), \<open>population_total\<close> returns the sum
  of these entries; for the empty list it returns the integer 0. (When a county lacks the
  entry, the function raises \<open>KeyError\<close>.)
\<close>

theorem population_total_sum:
  "population_total [] = Inr 0 \<and>
   (map (\<lambda>c. demographics c ''2014 Population'') counties = map Some ps \<longrightarrow>
    population_total counties = Inr (sum_list ps)) \<and>
   (list_ex (\<lambda>c. demographics c ''2014 Population'' = None) counties \<longrightarrow>
    population_total counties = Inl KeyError)"
proof (intro conjI impI)
  show "population_total [] = Inr 0"
    by (simp add: population_total_def)
next
  assume "map (\<lambda>c. demographics c ''2014 Population'') counties = map Some ps"
  from population_total_loop_sum [OF this, of 0]
  show "population_total counties = Inr (sum_list ps)"
    by (simp add: population_total_def)
next
  assume "list_ex (\<lambda>c. demographics c ''2014 Population'' = None) counties"
  then show "population_total counties = Inl KeyError"
    unfolding population_total_def by (rule population_total_loop_missing)
qed

theorem population_total_sum_witness:
  "map (\<lambda>c. demographics c ''2014 Population'') [autauga, crawford] = map Some [55395, 61697] \<and>
   population_total [autauga, crawford] = Inr 117092 \<and>
   list_ex (\<lambda>c. demographics c ''2014 Population'' = None) [autauga, bare_county] \<and>
   population_total [autauga, bare_county] = Inl KeyError"
proof -
  have present:
    "map (\<lambda>c. demographics c ''2014 Population'') [autauga, crawford] = map Some [55395, 61697]"
    by (simp add: autauga_def crawford_def)
  have missing: "list_ex (\<lambda>c. demographics c ''2014 Population'' = None) [autauga, bare_county]"
    by (simp add: bare_county_def)
  from population_total_sum [of "[autauga, crawford]" "[55395, 61697]"] present
  have "population_total [autauga, crawford] = Inr 117092"
    by simp
  moreover from population_total_sum [of "[autauga, bare_county]" "[]"] missing
  have "population_total [autauga, bare_county] = Inl KeyError"
    by blast
  ultimately show ?thesis using present missing by blast
qed

section \<open>The sub-population functions\<close>

lemma population_by_education_loop_spec:
  "population_by_education_loop key acc counties =
   float_sum_from acc
     (map (\<lambda>c. sub_population_part (the (education c key)) c)
        [c \<leftarrow> counties. education c key \<noteq> None])"
  by (induction counties arbitrary: acc)
     (auto simp: sub_population_part_def split: option.splits sum.splits)

lemma population_by_ethnicity_loop_spec:
  "population_by_ethnicity_loop key acc counties =
   float_sum_from acc
     (map (\<lambda>c. sub_population_part (the (ethnicity c key)) c)
        [c \<leftarrow> counties. ethnicity c key \<noteq> None])"
  by (induction counties arbitrary: acc)
     (auto simp: sub_population_part_def split: option.splits sum.splits)

lemma population_below_poverty_level_loop_spec:
  "population_below_poverty_level_loop acc counties =
   float_sum_from acc
     (map (\<lambda>c. sub_population_part (the (income c ''Persons Below Poverty Level'')) c)
        [c \<leftarrow> counties. income c ''Persons Below Poverty Level'' \<noteq> None])"
  by (induction counties arbitrary: acc)
     (auto simp: sub_population_part_def split: option.splits sum.splits)

lemma population_by_education_loop_append:
  "population_by_education_loop key acc (cs @ ds) =
   (case population_by_education_loop key acc cs of
      Inl e \<Rightarrow> Inl e
    | Inr a \<Rightarrow> population_by_education_loop key a ds)"
  by (induction cs arbitrary: acc) (auto split: option.splits sum.splits)

lemma population_by_ethnicity_loop_append:
  "population_by_ethnicity_loop key acc (cs @ ds) =
   (case population_by_ethnicity_loop key acc cs of
      Inl e \<Rightarrow> Inl e
    | Inr a \<Rightarrow> population_by_ethnicity_loop key a ds)"
  by (induction cs arbitrary: acc) (auto split: option.splits sum.splits)

lemma population_below_poverty_level_loop_append:
  "population_below_poverty_level_loop acc (cs @ ds) =
   (case population_below_poverty_level_loop acc cs of
      Inl e \<Rightarrow> Inl e
    | Inr a \<Rightarrow> population_below_poverty_level_loop a ds)"
  by (induction cs arbitrary: acc) (auto split: option.splits sum.splits)

text \<open>
  C2. Each sub-population function returns the float sum, over exactly the counties whose
  mapping contains the key and in the order of the list, of
  \<open>(percentage_value / 100) * population\<close>. A county whose mapping lacks the key
  contributes nothing and raises nothing, whatever else it holds: the result is the one for
  the list without it.
\<close>

theorem sub_population_sum:
  "population_by_education counties key = sub_population_spec education key counties \<and>
   population_by_ethnicity counties key = sub_population_spec ethnicity key counties \<and>
   population_below_poverty_level counties =
     sub_population_spec income ''Persons Below Poverty Level'' counties \<and>
   (education c key = None \<longrightarrow>
      population_by_education (cs @ c # ds) key = population_by_education (cs @ ds) key) \<and>
   (ethnicity c key = None \<longrightarrow>
      population_by_ethnicity (cs @ c # ds) key = population_by_ethnicity (cs @ ds) key) \<and>
   (income c ''Persons Below Poverty Level'' = None \<longrightarrow>
      population_below_poverty_level (cs @ c # ds) = population_below_poverty_level (cs @ ds))"
proof (intro conjI impI)
  show "population_by_education counties key = sub_population_spec education key counties"
    by (simp add: population_by_education_def sub_population_spec_def
        population_by_education_loop_spec)
  show "population_by_ethnicity counties key = sub_population_spec ethnicity key counties"
    by (simp add: population_by_ethnicity_def sub_population_spec_def
        population_by_ethnicity_loop_spec)
  show "population_below_poverty_level counties =
    sub_population_spec income ''Persons Below Poverty Level'' counties"
    by (simp add: population_below_poverty_level_def sub_population_spec_def
        population_below_poverty_level_loop_spec)
next
  assume "education c key = None"
  then show "population_by_education (cs @ c # ds) key = population_by_education (cs @ ds) key"
    by (simp add: population_by_education_def population_by_education_loop_append split: sum.splits)
next
  assume "ethnicity c key = None"
  then show "population_by_ethnicity (cs @ c # ds) key = population_by_ethnicity (cs @ ds) key"
    by (simp add: population_by_ethnicity_def population_by_ethnicity_loop_append split: sum.splits)
next
  assume "income c ''Persons Below Poverty Level'' = None"
  then show "population_below_poverty_level (cs @ c # ds) = population_below_poverty_level (cs @ ds)"
    by (simp add: population_below_poverty_level_def population_below_poverty_level_loop_append split: sum.splits)
qed

theorem sub_population_sum_witness:
  "education bare_county bachelors = None \<and>
   ethnicity bare_county bachelors = None \<and>
   income bare_county ''Persons Below Poverty Level'' = None \<and>
   population_by_education ([autauga] @ bare_county # []) bachelors =
     population_by_education ([autauga] @ []) bachelors \<and>
   population_by_ethnicity ([autauga] @ bare_county # []) bachelors =
     population_by_ethnicity ([autauga] @ []) bachelors \<and>
   population_below_poverty_level ([autauga] @ bare_county # []) =
     population_below_poverty_level ([autauga] @ []) \<and>
   population_by_education [autauga, bare_county] bachelors = Inr (py_float (11577555 / 1000)) \<and>
   sub_population_spec education bachelors [autauga, bare_county] =
     Inr (py_float (11577555 / 1000))"
proof -
  have none: "education bare_county bachelors = None"
    "ethnicity bare_county bachelors = None"
    "income bare_county ''Persons Below Poverty Level'' = None"
    by (simp_all add: bare_county_def)
  have e: "education autauga bachelors = Some (py_float (209 / 10))"
    by (simp add: autauga_def)
  have d: "demographics autauga ''2014 Population'' = Some 55395"
    by (simp add: autauga_def)
  from sub_population_sum [of "[autauga, bare_county]" bachelors bare_county "[autauga]" "[]"]
    none
  have skip: "population_by_education ([autauga] @ bare_county # []) bachelors =
      population_by_education ([autauga] @ []) bachelors"
    "population_by_ethnicity ([autauga] @ bare_county # []) bachelors =
      population_by_ethnicity ([autauga] @ []) bachelors"
    "population_below_poverty_level ([autauga] @ bare_county # []) =
      population_below_poverty_level ([autauga] @ [])"
    and spec: "population_by_education [autauga, bare_county] bachelors =
      sub_population_spec education bachelors [autauga, bare_county]"
    by blast+
  from skip(1) have "population_by_education [autauga, bare_county] bachelors =
      Inr (py_float (11577555 / 1000))"
    unfolding literal_11577_555 by (simp add: single_county_sub_population [OF e d])
  with none skip spec show ?thesis by simp
qed

section \<open>The percent functions\<close>

lemma population_total_loop_error: "population_total_loop acc cs = Inl e \<Longrightarrow> e = KeyError"
  by (induction cs arbitrary: acc) (auto split: option.splits)

lemma population_by_education_loop_error:
  "population_by_education_loop key acc cs = Inl e \<Longrightarrow> e \<noteq> ZeroDivisionError"
  by (induction cs arbitrary: acc)
     (auto simp: float_truediv_int_100 split: option.splits sum.splits dest: float_mul_int_error)

lemma population_by_ethnicity_loop_error:
  "population_by_ethnicity_loop key acc cs = Inl e \<Longrightarrow> e \<noteq> ZeroDivisionError"
  by (induction cs arbitrary: acc)
     (auto simp: float_truediv_int_100 split: option.splits sum.splits dest: float_mul_int_error)

lemma population_below_poverty_level_loop_error:
  "population_below_poverty_level_loop acc cs = Inl e \<Longrightarrow> e \<noteq> ZeroDivisionError"
  by (induction cs arbitrary: acc)
     (auto simp: float_truediv_int_100 split: option.splits sum.splits dest: float_mul_int_error)

lemma percent_tail:
  "(if 0 < n then
      (case float_truediv_int sub n of Inl e \<Rightarrow> Inl e | Inr ratio \<Rightarrow> float_mul_int ratio 100)
    else Inr (Finite 0)) = percent_of sub n"
proof (cases "0 < n")
  case False
  then show ?thesis by (simp add: percent_of_def)
next
  case True
  show ?thesis
  proof (cases "float_of_int n")
    case (Inl e)
    with True show ?thesis by (simp add: percent_of_def float_truediv_int_def)
  next
    case (Inr t)
    from float_of_int_pos_nonzero [OF True Inr] have "\<not> is_zero t" .
    with True Inr show ?thesis
      by (simp add: percent_of_def float_truediv_int_def float_truediv_def float_mul_int_100)
  qed
qed

lemma percent_of_error: "percent_of sub n = Inl e \<Longrightarrow> e = OverflowError"
  by (auto simp: percent_of_def split: if_splits sum.splits dest: float_of_int_error)

lemma percent_by_education_of:
  "percent_by_education cs key =
   (case population_total cs of
      Inl e \<Rightarrow> Inl e
    | Inr n \<Rightarrow>
        (case population_by_education cs key of
           Inl e \<Rightarrow> Inl e
         | Inr sub \<Rightarrow> percent_of sub n))"
  by (simp add: percent_by_education_def percent_tail split: sum.splits)

lemma percent_by_ethnicity_of:
  "percent_by_ethnicity cs key =
   (case population_total cs of
      Inl e \<Rightarrow> Inl e
    | Inr n \<Rightarrow>
        (case population_by_ethnicity cs key of
           Inl e \<Rightarrow> Inl e
         | Inr sub \<Rightarrow> percent_of sub n))"
  by (simp add: percent_by_ethnicity_def percent_tail split: sum.splits)

lemma percent_below_poverty_level_of:
  "percent_below_poverty_level cs =
   (case population_total cs of
      Inl e \<Rightarrow> Inl e
    | Inr n \<Rightarrow>
        (case population_below_poverty_level cs of
           Inl e \<Rightarrow> Inl e
         | Inr sub \<Rightarrow> percent_of sub n))"
  by (simp add: percent_below_poverty_level_def percent_tail split: sum.splits)

lemma percent_by_education_no_division_error:
  "percent_by_education cs key \<noteq> Inl ZeroDivisionError"
  by (auto simp: percent_by_education_of population_total_def population_by_education_def
      split: sum.splits
      dest: population_total_loop_error population_by_education_loop_error percent_of_error)

lemma percent_by_ethnicity_no_division_error:
  "percent_by_ethnicity cs key \<noteq> Inl ZeroDivisionError"
  by (auto simp: percent_by_ethnicity_of population_total_def population_by_ethnicity_def
      split: sum.splits
      dest: population_total_loop_error population_by_ethnicity_loop_error percent_of_error)

lemma percent_below_poverty_level_no_division_error:
  "percent_below_poverty_level cs \<noteq> Inl ZeroDivisionError"
  by (auto simp: percent_below_poverty_level_of population_total_def
      population_below_poverty_level_def
      split: sum.splits
      dest: population_total_loop_error population_below_poverty_level_loop_error
        percent_of_error)

lemma zero_population_total_loop:
  "list_all zero_population cs \<Longrightarrow> population_total_loop acc cs = Inr acc"
  by (induction cs arbitrary: acc) (auto simp: zero_population_def)

lemma zero_population_by_education_loop:
  "list_all zero_population cs \<Longrightarrow> \<exists>s. population_by_education_loop key acc cs = Inr s"
  by (induction cs arbitrary: acc)
     (auto simp: zero_population_def float_truediv_int_100 float_mul_int_0 split: option.splits)

lemma zero_population_by_ethnicity_loop:
  "list_all zero_population cs \<Longrightarrow> \<exists>s. population_by_ethnicity_loop key acc cs = Inr s"
  by (induction cs arbitrary: acc)
     (auto simp: zero_population_def float_truediv_int_100 float_mul_int_0 split: option.splits)

lemma zero_population_below_poverty_level_loop:
  "list_all zero_population cs \<Longrightarrow> \<exists>s. population_below_poverty_level_loop acc cs = Inr s"
  by (induction cs arbitrary: acc)
     (auto simp: zero_population_def float_truediv_int_100 float_mul_int_0 split: option.splits)

text \<open>
  C3, as amended. Whenever both totals are returned, a percent function returns
  \<open>percent_of\<close> of them: \<open>0.0\<close> unless the total population is positive (so also
  for a negative total), and otherwise the quotient of the sub-population by the total,
  multiplied by 100, in floating point (\<open>OverflowError\<close> when the total is beyond the
  range of a float). No percent function ever raises \<open>ZeroDivisionError\<close>; each
  returns \<open>0.0\<close> for the empty list and for a list of counties whose populations are
  all zero.
\<close>

theorem percent_guarded:
  "(population_total cs = Inr n \<longrightarrow> population_by_education cs key = Inr sub \<longrightarrow>
      percent_by_education cs key = percent_of sub n) \<and>
   (population_total cs = Inr n \<longrightarrow> population_by_ethnicity cs key = Inr sub \<longrightarrow>
      percent_by_ethnicity cs key = percent_of sub n) \<and>
   (population_total cs = Inr n \<longrightarrow> population_below_poverty_level cs = Inr sub \<longrightarrow>
      percent_below_poverty_level cs = percent_of sub n) \<and>
   percent_by_education cs key \<noteq> Inl ZeroDivisionError \<and>
   percent_by_ethnicity cs key \<noteq> Inl ZeroDivisionError \<and>
   percent_below_poverty_level cs \<noteq> Inl ZeroDivisionError \<and>
   percent_by_education [] key = Inr (Finite 0) \<and>
   percent_by_ethnicity [] key = Inr (Finite 0) \<and>
   percent_below_poverty_level [] = Inr (Finite 0) \<and>
   (list_all zero_population cs \<longrightarrow>
      percent_by_education cs key = Inr (Finite 0) \<and>
      percent_by_ethnicity cs key = Inr (Finite 0) \<and>
      percent_below_poverty_level cs = Inr (Finite 0))"
proof (intro conjI impI)
  show "percent_by_education cs key \<noteq> Inl ZeroDivisionError"
    by (rule percent_by_education_no_division_error)
  show "percent_by_ethnicity cs key \<noteq> Inl ZeroDivisionError"
    by (rule percent_by_ethnicity_no_division_error)
  show "percent_below_poverty_level cs \<noteq> Inl ZeroDivisionError"
    by (rule percent_below_poverty_level_no_division_error)
  show "percent_by_education [] key = Inr (Finite 0)"
    by (simp add: percent_by_education_def population_total_def population_by_education_def)
  show "percent_by_ethnicity [] key = Inr (Finite 0)"
    by (simp add: percent_by_ethnicity_def population_total_def population_by_ethnicity_def)
  show "percent_below_poverty_level [] = Inr (Finite 0)"
    by (simp add: percent_below_poverty_level_def population_total_def
        population_below_poverty_level_def)
next
  assume "population_total cs = Inr n" and "population_by_education cs key = Inr sub"
  then show "percent_by_education cs key = percent_of sub n"
    by (simp add: percent_by_education_of)
next
  assume "population_total cs = Inr n" and "population_by_ethnicity cs key = Inr sub"
  then show "percent_by_ethnicity cs key = percent_of sub n"
    by (simp add: percent_by_ethnicity_of)
next
  assume "population_total cs = Inr n" and "population_below_poverty_level cs = Inr sub"
  then show "percent_below_poverty_level cs = percent_of sub n"
    by (simp add: percent_below_poverty_level_of)
next
  assume z: "list_all zero_population cs"
  then have t: "population_total cs = Inr 0"
    by (simp add: population_total_def zero_population_total_loop)
  from zero_population_by_education_loop [OF z]
  obtain s where "population_by_education cs key = Inr s"
    unfolding population_by_education_def by blast
  with t show "percent_by_education cs key = Inr (Finite 0)"
    by (simp add: percent_by_education_of percent_of_def)
  from zero_population_by_ethnicity_loop [OF z]
  obtain s where "population_by_ethnicity cs key = Inr s"
    unfolding population_by_ethnicity_def by blast
  with t show "percent_by_ethnicity cs key = Inr (Finite 0)"
    by (simp add: percent_by_ethnicity_of percent_of_def)
  from zero_population_below_poverty_level_loop [OF z]
  obtain s where "population_below_poverty_level cs = Inr s"
    unfolding population_below_poverty_level_def by blast
  with t show "percent_below_poverty_level cs = Inr (Finite 0)"
    by (simp add: percent_below_poverty_level_of percent_of_def)
qed

lemma scenario_percent_of:
  "percent_of (Finite (1591207042964521 / 137438953472)) 55395 =
   Inr (Finite (5882827013252711 / 281474976710656))"
  by code_simp

lemma scenario_percent_claimed:
  "percent_claimed (Finite (1591207042964521 / 137438953472)) 55395 =
   Inr (Finite (2941413506626355 / 140737488355328))"
  by code_simp

lemma negative_total:
  "population_total [sample_county ''AL'' (Finite 50) (- 200)] = Inr (- 200)"
  by (simp add: population_total_def sample_county_def)

lemma negative_sub_population:
  "population_by_education [sample_county ''AL'' (Finite 50) (- 200)] bachelors =
   Inr (Finite (- 100))"
  by code_simp

lemma negative_percent:
  "percent_by_education [sample_county ''AL'' (Finite 50) (- 200)] bachelors = Inr (Finite 0)"
  by code_simp

lemma negative_percent_claimed: "percent_claimed (Finite (- 100)) (- 200) = Inr (Finite 50)"
  by code_simp

lemma sample_total: "population_total [sample_county ''AL'' (Finite 50) 200] = Inr 200"
  by (simp add: population_total_def sample_county_def)

lemma sample_ethnicity:
  "population_by_ethnicity [sample_county ''AL'' (Finite 50) 200] ''Hispanic or Latino'' =
   Inr (Finite 100)"
  by code_simp

lemma sample_poverty:
  "population_below_poverty_level [sample_county ''AL'' (Finite 50) 200] = Inr (Finite 100)"
  by code_simp

lemma sample_percent_of: "percent_of (Finite 100) 200 = Inr (Finite 50)"
  by code_simp

theorem percent_guarded_witness:
  "population_total [autauga] = Inr 55395 \<and>
   population_by_education [autauga] bachelors =
     Inr (Finite (1591207042964521 / 137438953472)) \<and>
   percent_by_education [autauga] bachelors =
     Inr (Finite (5882827013252711 / 281474976710656)) \<and>
   population_total [sample_county ''AL'' (Finite 50) 200] = Inr 200 \<and>
   population_by_ethnicity [sample_county ''AL'' (Finite 50) 200] ''Hispanic or Latino'' =
     Inr (Finite 100) \<and>
   percent_by_ethnicity [sample_county ''AL'' (Finite 50) 200] ''Hispanic or Latino'' =
     Inr (Finite 50) \<and>
   population_below_poverty_level [sample_county ''AL'' (Finite 50) 200] = Inr (Finite 100) \<and>
   percent_below_poverty_level [sample_county ''AL'' (Finite 50) 200] = Inr (Finite 50) \<and>
   list_all zero_population [sample_county ''AL'' (Finite 50) 0] \<and>
   percent_by_education [sample_county ''AL'' (Finite 50) 0] bachelors = Inr (Finite 0)"
proof -
  have e: "education autauga bachelors = Some (py_float (209 / 10))"
    by (simp add: autauga_def)
  have d: "demographics autauga ''2014 Population'' = Some 55395"
    by (simp add: autauga_def)
  note t = single_county_total [OF d]
  note s = single_county_sub_population [OF e d]
  have z: "list_all zero_population [sample_county ''AL'' (Finite 50) 0]"
    by (simp add: zero_population_def sample_county_def)
  from percent_guarded [of "[autauga]" 55395 bachelors
      "Finite (1591207042964521 / 137438953472)"] t s
  have "percent_by_education [autauga] bachelors =
     percent_of (Finite (1591207042964521 / 137438953472)) 55395"
    by blast
  with scenario_percent_of have p: "percent_by_education [autauga] bachelors =
     Inr (Finite (5882827013252711 / 281474976710656))"
    by simp
  from percent_guarded [of "[sample_county ''AL'' (Finite 50) 200]" 200
      "''Hispanic or Latino''" "Finite 100"] sample_total sample_ethnicity sample_poverty
  have "percent_by_ethnicity [sample_county ''AL'' (Finite 50) 200] ''Hispanic or Latino'' =
      percent_of (Finite 100) 200"
    and "percent_below_poverty_level [sample_county ''AL'' (Finite 50) 200] =
      percent_of (Finite 100) 200"
    by blast+
  with sample_percent_of
  have q: "percent_by_ethnicity [sample_county ''AL'' (Finite 50) 200] ''Hispanic or Latino'' =
      Inr (Finite 50)"
    "percent_below_poverty_level [sample_county ''AL'' (Finite 50) 200] = Inr (Finite 50)"
    by simp_all
  from percent_guarded [of "[sample_county ''AL'' (Finite 50) 0]" 0 bachelors "Finite 0"] z
  have r: "percent_by_education [sample_county ''AL'' (Finite 50) 0] bachelors = Inr (Finite 0)"
    by blast
  from t s p q r z sample_total sample_ethnicity sample_poverty show ?thesis by blast
qed

text \<open>
  The statement of C3 fails on two inputs. On the scenario county the program returns
  \<open>20.900000000000002\<close> where \<open>100 * sub_population / total_population\<close> is
  \<open>20.9\<close>; on a county with a negative population it returns \<open>0.0\<close> although the
  total is not zero.
\<close>

theorem percent_guarded_counterexample:
  "population_total [autauga] = Inr 55395 \<and>
   population_by_education [autauga] bachelors =
     Inr (Finite (1591207042964521 / 137438953472)) \<and>
   percent_by_education [autauga] bachelors =
     Inr (Finite (5882827013252711 / 281474976710656)) \<and>
   percent_claimed (Finite (1591207042964521 / 137438953472)) 55395 =
     Inr (Finite (2941413506626355 / 140737488355328)) \<and>
   Finite (5882827013252711 / 281474976710656) \<noteq>
     Finite (2941413506626355 / 140737488355328) \<and>
   population_total [sample_county ''AL'' (Finite 50) (- 200)] = Inr (- 200) \<and>
   population_by_education [sample_county ''AL'' (Finite 50) (- 200)] bachelors =
     Inr (Finite (- 100)) \<and>
   percent_by_education [sample_county ''AL'' (Finite 50) (- 200)] bachelors =
     Inr (Finite 0) \<and>
   percent_claimed (Finite (- 100)) (- 200) = Inr (Finite 50)"
proof -
  have e: "education autauga bachelors = Some (py_float (209 / 10))"
    by (simp add: autauga_def)
  have d: "demographics autauga ''2014 Population'' = Some 55395"
    by (simp add: autauga_def)
  have "Finite (5882827013252711 / 281474976710656) \<noteq>
     Finite (2941413506626355 / 140737488355328)"
    by simp
  with single_county_total [OF d] single_county_sub_population [OF e d]
    single_county_percent [OF e d] scenario_percent_claimed
    negative_total negative_sub_population negative_percent negative_percent_claimed
  show ?thesis by blast
qed

section \<open>The threshold filters\<close>

text \<open>
  C4. Each threshold filter keeps, in the order of the list, exactly the counties whose
  value for the key (the float zero when the key is missing) is greater than, respectively
  less than, the threshold. The comparisons are strict: on finite floats they are the strict
  order of the numbers, and no value is above or below itself. A county of the list without
  a \<open>Hispanic or Latino\<close> entry is in \<open>ethnicity_less_than\<close> for the threshold
  \<open>1.0\<close> and not in \<open>ethnicity_greater_than\<close>.
\<close>

theorem threshold_filters:
  "set (education_greater_than cs k t) =
     {c \<in> set cs. float_gt (dict_get (education c) k (Finite 0)) t} \<and>
   set (education_less_than cs k t) =
     {c \<in> set cs. float_lt (dict_get (education c) k (Finite 0)) t} \<and>
   set (ethnicity_greater_than cs k t) =
     {c \<in> set cs. float_gt (dict_get (ethnicity c) k (Finite 0)) t} \<and>
   set (ethnicity_less_than cs k t) =
     {c \<in> set cs. float_lt (dict_get (ethnicity c) k (Finite 0)) t} \<and>
   set (below_poverty_level_greater_than cs t) =
     {c \<in> set cs. float_gt (dict_get (income c) ''Persons Below Poverty Level'' (Finite 0)) t} \<and>
   set (below_poverty_level_less_than cs t) =
     {c \<in> set cs. float_lt (dict_get (income c) ''Persons Below Poverty Level'' (Finite 0)) t} \<and>
   subseq (education_greater_than cs k t) cs \<and> subseq (education_less_than cs k t) cs \<and>
   subseq (ethnicity_greater_than cs k t) cs \<and> subseq (ethnicity_less_than cs k t) cs \<and>
   subseq (below_poverty_level_greater_than cs t) cs \<and>
   subseq (below_poverty_level_less_than cs t) cs \<and>
   float_gt (Finite x) (Finite y) = (y < x) \<and> float_lt (Finite x) (Finite y) = (x < y) \<and>
   \<not> float_gt t t \<and> \<not> float_lt t t \<and>
   (c \<in> set cs \<longrightarrow> ethnicity c ''Hispanic or Latino'' = None \<longrightarrow>
      c \<in> set (ethnicity_less_than cs ''Hispanic or Latino'' (py_float 1)) \<and>
      c \<notin> set (ethnicity_greater_than cs ''Hispanic or Latino'' (py_float 1)))"
proof (intro conjI impI)
  show "set (education_greater_than cs k t) =
     {c \<in> set cs. float_gt (dict_get (education c) k (Finite 0)) t}"
    by (simp add: education_greater_than_def)
  show "set (education_less_than cs k t) =
     {c \<in> set cs. float_lt (dict_get (education c) k (Finite 0)) t}"
    by (simp add: education_less_than_def)
  show "set (ethnicity_greater_than cs k t) =
     {c \<in> set cs. float_gt (dict_get (ethnicity c) k (Finite 0)) t}"
    by (simp add: ethnicity_greater_than_def)
  show "set (ethnicity_less_than cs k t) =
     {c \<in> set cs. float_lt (dict_get (ethnicity c) k (Finite 0)) t}"
    by (simp add: ethnicity_less_than_def)
  show "set (below_poverty_level_greater_than cs t) =
     {c \<in> set cs. float_gt (dict_get (income c) ''Persons Below Poverty Level'' (Finite 0)) t}"
    by (simp add: below_poverty_level_greater_than_def)
  show "set (below_poverty_level_less_than cs t) =
     {c \<in> set cs. float_lt (dict_get (income c) ''Persons Below Poverty Level'' (Finite 0)) t}"
    by (simp add: below_poverty_level_less_than_def)
  show "subseq (education_greater_than cs k t) cs"
    by (simp add: education_greater_than_def)
  show "subseq (education_less_than cs k t) cs"
    by (simp add: education_less_than_def)
  show "subseq (ethnicity_greater_than cs k t) cs"
    by (simp add: ethnicity_greater_than_def)
  show "subseq (ethnicity_less_than cs k t) cs"
    by (simp add: ethnicity_less_than_def)
  show "subseq (below_poverty_level_greater_than cs t) cs"
    by (simp add: below_poverty_level_greater_than_def)
  show "subseq (below_poverty_level_less_than cs t) cs"
    by (simp add: below_poverty_level_less_than_def)
  show "float_gt (Finite x) (Finite y) = (y < x)"
    by (simp add: float_gt_def)
  show "float_lt (Finite x) (Finite y) = (x < y)"
    by simp
  show "\<not> float_gt t t"
    by (simp add: float_gt_def float_lt_irrefl)
  show "\<not> float_lt t t"
    by (rule float_lt_irrefl)
next
  assume "c \<in> set cs" and "ethnicity c ''Hispanic or Latino'' = None"
  then show "c \<in> set (ethnicity_less_than cs ''Hispanic or Latino'' (py_float 1))"
    by (simp add: ethnicity_less_than_def dict_get_def literal_1)
next
  assume "c \<in> set cs" and "ethnicity c ''Hispanic or Latino'' = None"
  then show "c \<notin> set (ethnicity_greater_than cs ''Hispanic or Latino'' (py_float 1))"
    by (simp add: ethnicity_greater_than_def dict_get_def literal_1 float_gt_def)
qed

theorem threshold_filters_witness:
  "bare_county \<in> set [autauga, bare_county] \<and>
   ethnicity bare_county ''Hispanic or Latino'' = None \<and>
   ethnicity_less_than [autauga, bare_county] ''Hispanic or Latino'' (py_float 1) =
     [bare_county] \<and>
   ethnicity_greater_than [autauga, bare_county] ''Hispanic or Latino'' (py_float 1) =
     [autauga] \<and>
   bare_county \<notin> set (ethnicity_greater_than [autauga, bare_county] ''Hispanic or Latino''
     (py_float 1))"
proof -
  have m: "bare_county \<in> set [autauga, bare_county]"
    by simp
  have n: "ethnicity bare_county ''Hispanic or Latino'' = None"
    by (simp add: bare_county_def)
  have a: "ethnicity autauga ''Hispanic or Latino'' =
    Some (Finite (3039929748475085 / 1125899906842624))"
    by (simp add: autauga_def literal_2_7)
  have l: "ethnicity_less_than [autauga, bare_county] ''Hispanic or Latino'' (py_float 1) =
     [bare_county]"
    by (simp add: ethnicity_less_than_def dict_get_def a n literal_1)
  have g: "ethnicity_greater_than [autauga, bare_county] ''Hispanic or Latino'' (py_float 1) =
     [autauga]"
    by (simp add: ethnicity_greater_than_def dict_get_def a n literal_1 float_gt_def)
  from threshold_filters [of "[autauga, bare_county]" "''Hispanic or Latino''" "py_float 1"
      0 0 bare_county] m n
  have "bare_county \<notin> set (ethnicity_greater_than [autauga, bare_county] ''Hispanic or Latino''
     (py_float 1))"
    by blast
  with m n l g show ?thesis by blast
qed

section \<open>Filtering by state\<close>

text \<open>
  C5. \<open>filter_by_state\<close> returns a subsequence of its input, every element of which
  has the given state; every county of the input it leaves out has another state; every
  subsequence of the input whose elements all have the given state is a subsequence of the
  result (so the result is the whole of the matching counties, in their order); and the
  result is empty when no county has the given state, whatever string that is.
\<close>

theorem filter_by_state_exact:
  "subseq (filter_by_state cs s) cs \<and>
   (\<forall>c \<in> set (filter_by_state cs s). state c = s) \<and>
   (\<forall>c \<in> set cs. c \<notin> set (filter_by_state cs s) \<longrightarrow> state c \<noteq> s) \<and>
   (\<forall>ys. subseq ys cs \<and> (\<forall>c \<in> set ys. state c = s) \<longrightarrow> subseq ys (filter_by_state cs s)) \<and>
   ((\<forall>c \<in> set cs. state c \<noteq> s) \<longrightarrow> filter_by_state cs s = [])"
proof (intro conjI allI impI ballI)
  show "subseq (filter_by_state cs s) cs"
    by (simp add: filter_by_state_def)
next
  fix c assume "c \<in> set (filter_by_state cs s)"
  then show "state c = s" by (simp add: filter_by_state_def)
next
  fix c assume "c \<in> set cs" and "c \<notin> set (filter_by_state cs s)"
  then show "state c \<noteq> s" by (simp add: filter_by_state_def)
next
  fix ys assume ys: "subseq ys cs \<and> (\<forall>c \<in> set ys. state c = s)"
  then have same: "filter (\<lambda>c. state c = s) ys = ys" by (simp add: filter_id_conv)
  from ys have "subseq ys cs" by simp
  then have "subseq (filter (\<lambda>c. state c = s) ys) (filter (\<lambda>c. state c = s) cs)"
    by (rule subseq_filter)
  then show "subseq ys (filter_by_state cs s)"
    by (simp only: same filter_by_state_def)
next
  assume "\<forall>c \<in> set cs. state c \<noteq> s"
  then show "filter_by_state cs s = []"
    by (simp add: filter_by_state_def filter_empty_conv)
qed

theorem filter_by_state_exact_witness:
  "filter_by_state [autauga, crawford, autauga] ''AL'' = [autauga, autauga] \<and>
   state autauga = ''AL'' \<and> state crawford = ''AR'' \<and>
   filter_by_state [autauga, crawford, autauga] ''al'' = [] \<and>
   filter_by_state [autauga, crawford, autauga] ''Alabama'' = [] \<and>
   subseq (filter_by_state [autauga, crawford, autauga] ''AL'') [autauga, crawford, autauga]"
  using filter_by_state_exact [of "[autauga, crawford, autauga]" "''AL''"]
  by (simp add: filter_by_state_def autauga_def crawford_def)

section \<open>Above, below and equal\<close>

lemma three_way_partition:
  assumes "\<And>x. x \<in> set xs \<Longrightarrow> (P x \<or> Q x \<or> R x) \<and> \<not> (P x \<and> Q x) \<and> \<not> (P x \<and> R x) \<and> \<not> (Q x \<and> R x)"
  shows "mset xs = mset (filter P xs) + mset (filter Q xs) + mset (filter R xs)"
  using assms
proof (induction xs)
  case Nil
  show ?case by simp
next
  case (Cons x xs)
  from Cons.prems [of x] have here:
    "(P x \<or> Q x \<or> R x) \<and> \<not> (P x \<and> Q x) \<and> \<not> (P x \<and> R x) \<and> \<not> (Q x \<and> R x)"
    by simp
  from Cons.prems have rest:
    "mset xs = mset (filter P xs) + mset (filter Q xs) + mset (filter R xs)"
    by (intro Cons.IH) simp
  from here consider
    (first) "P x" "\<not> Q x" "\<not> R x" | (second) "\<not> P x" "Q x" "\<not> R x" |
    (third) "\<not> P x" "\<not> Q x" "R x"
    by blast
  then show ?case
  proof cases
    case first
    then have "mset (filter P (x # xs)) + mset (filter Q (x # xs)) + mset (filter R (x # xs)) =
      add_mset x (mset (filter P xs) + mset (filter Q xs) + mset (filter R xs))"
      by simp
    with rest show ?thesis by simp
  next
    case second
    then have "mset (filter P (x # xs)) + mset (filter Q (x # xs)) + mset (filter R (x # xs)) =
      add_mset x (mset (filter P xs) + mset (filter Q xs) + mset (filter R xs))"
      by simp
    with rest show ?thesis by simp
  next
    case third
    then have "mset (filter P (x # xs)) + mset (filter Q (x # xs)) + mset (filter R (x # xs)) =
      add_mset x (mset (filter P xs) + mset (filter Q xs) + mset (filter R xs))"
      by simp
    with rest show ?thesis by simp
  qed
qed

text \<open>
  C6, as amended. No county is in two of the three parts: the counties above the threshold,
  those below it and those equal to it. When the threshold is not NaN and no county's value
  for the key is NaN, the three parts together hold every county of the list, each as often
  as the list does.
\<close>

theorem education_partition:
  "set (education_greater_than cs k t) \<inter> set (education_less_than cs k t) = {} \<and>
   set (education_greater_than cs k t) \<inter> set (education_equal_to cs k t) = {} \<and>
   set (education_less_than cs k t) \<inter> set (education_equal_to cs k t) = {} \<and>
   (t \<noteq> NaN \<longrightarrow> list_all (education_value_known k) cs \<longrightarrow>
      mset cs =
        mset (education_greater_than cs k t) + mset (education_less_than cs k t) +
        mset (education_equal_to cs k t))"
proof (intro conjI impI)
  show "set (education_greater_than cs k t) \<inter> set (education_less_than cs k t) = {}"
    by (auto simp: education_greater_than_def education_less_than_def float_gt_def
        dest: float_lt_asym)
  show "set (education_greater_than cs k t) \<inter> set (education_equal_to cs k t) = {}"
    by (auto simp: education_greater_than_def education_equal_to_def dest: float_eq_not_lt)
  show "set (education_less_than cs k t) \<inter> set (education_equal_to cs k t) = {}"
    by (auto simp: education_less_than_def education_equal_to_def dest: float_eq_not_lt)
next
  assume t: "t \<noteq> NaN" and known: "list_all (education_value_known k) cs"
  have "mset cs =
    mset (filter (\<lambda>c. float_gt (dict_get (education c) k (Finite 0)) t) cs) +
    mset (filter (\<lambda>c. float_lt (dict_get (education c) k (Finite 0)) t) cs) +
    mset (filter (\<lambda>c. float_eq (dict_get (education c) k (Finite 0)) t) cs)"
  proof (rule three_way_partition)
    fix c assume "c \<in> set cs"
    with known have v: "dict_get (education c) k (Finite 0) \<noteq> NaN"
      by (simp add: list_all_iff education_value_known_def)
    let ?v = "dict_get (education c) k (Finite 0)"
    from float_trichotomy [OF v t] float_eq_not_lt [of ?v t] float_lt_asym [of ?v t]
    show "(float_gt ?v t \<or> float_lt ?v t \<or> float_eq ?v t) \<and>
      \<not> (float_gt ?v t \<and> float_lt ?v t) \<and> \<not> (float_gt ?v t \<and> float_eq ?v t) \<and>
      \<not> (float_lt ?v t \<and> float_eq ?v t)"
      by (auto simp: float_gt_def)
  qed
  then show "mset cs =
        mset (education_greater_than cs k t) + mset (education_less_than cs k t) +
        mset (education_equal_to cs k t)"
    by (simp only: education_greater_than_def education_less_than_def education_equal_to_def)
qed

theorem education_partition_witness:
  "py_float (209 / 10) \<noteq> NaN \<and> list_all (education_value_known bachelors) [autauga, crawford] \<and>
   education_greater_than [autauga, crawford] bachelors (py_float (209 / 10)) = [] \<and>
   education_less_than [autauga, crawford] bachelors (py_float (209 / 10)) = [crawford] \<and>
   education_equal_to [autauga, crawford] bachelors (py_float (209 / 10)) = [autauga] \<and>
   mset [autauga, crawford] =
     mset (education_greater_than [autauga, crawford] bachelors (py_float (209 / 10))) +
     mset (education_less_than [autauga, crawford] bachelors (py_float (209 / 10))) +
     mset (education_equal_to [autauga, crawford] bachelors (py_float (209 / 10)))"
proof -
  have a: "education autauga bachelors = Some (Finite (2941413506626355 / 140737488355328))"
    by (simp add: autauga_def literal_20_9)
  have c: "education crawford bachelors = Some (Finite (4025092166962381 / 281474976710656))"
    by (simp add: crawford_def literal_14_3)
  have t: "py_float (209 / 10) \<noteq> NaN"
    by (simp add: literal_20_9)
  have k: "list_all (education_value_known bachelors) [autauga, crawford]"
    by (simp add: education_value_known_def dict_get_def a c)
  have g: "education_greater_than [autauga, crawford] bachelors (py_float (209 / 10)) = []"
    by (simp add: education_greater_than_def dict_get_def a c literal_20_9 float_gt_def)
  have l: "education_less_than [autauga, crawford] bachelors (py_float (209 / 10)) = [crawford]"
    by (simp add: education_less_than_def dict_get_def a c literal_20_9)
  have e: "education_equal_to [autauga, crawford] bachelors (py_float (209 / 10)) = [autauga]"
    by (simp add: education_equal_to_def dict_get_def a c literal_20_9 float_eq_def)
  from education_partition [of "[autauga, crawford]" bachelors "py_float (209 / 10)"] t k
  have "mset [autauga, crawford] =
     mset (education_greater_than [autauga, crawford] bachelors (py_float (209 / 10))) +
     mset (education_less_than [autauga, crawford] bachelors (py_float (209 / 10))) +
     mset (education_equal_to [autauga, crawford] bachelors (py_float (209 / 10)))"
    by blast
  with t k g l e show ?thesis by blast
qed

text \<open>
  With a NaN threshold, or with NaN as its value, a county is in none of the three parts.
\<close>

theorem education_partition_counterexample:
  "education_greater_than [sample_county ''AL'' (Finite 5) 1] bachelors NaN = [] \<and>
   education_less_than [sample_county ''AL'' (Finite 5) 1] bachelors NaN = [] \<and>
   education_equal_to [sample_county ''AL'' (Finite 5) 1] bachelors NaN = [] \<and>
   education_greater_than [sample_county ''AL'' NaN 1] bachelors (Finite 5) = [] \<and>
   education_less_than [sample_county ''AL'' NaN 1] bachelors (Finite 5) = [] \<and>
   education_equal_to [sample_county ''AL'' NaN 1] bachelors (Finite 5) = []"
  by (simp add: education_greater_than_def education_less_than_def education_equal_to_def
      dict_get_def sample_county_def float_gt_def float_eq_def)

section \<open>The total of a state\<close>

lemma population_total_loop_filter:
  "list_all population_nonneg cs \<Longrightarrow>
   \<exists>t t'. population_total_loop a cs = Inr (a + t) \<and>
     population_total_loop b (filter P cs) = Inr (b + t') \<and> 0 \<le> t' \<and> t' \<le> t"
proof (induction cs arbitrary: a b)
  case Nil
  show ?case by simp
next
  case (Cons c cs)
  from Cons.prems have first: "population_nonneg c" and rest: "list_all population_nonneg cs"
    by simp_all
  from first obtain p where p: "demographics c ''2014 Population'' = Some p" "0 \<le> p"
    by (auto simp: population_nonneg_def split: option.splits)
  show ?case
  proof (cases "P c")
    case True
    from Cons.IH [OF rest, of "a + p" "b + p"] obtain t t' where
      "population_total_loop (a + p) cs = Inr (a + p + t)"
      "population_total_loop (b + p) (filter P cs) = Inr (b + p + t')" "0 \<le> t'" "t' \<le> t"
      by blast
    with p True show ?thesis
      by (intro exI [of _ "p + t"] exI [of _ "p + t'"]) simp
  next
    case False
    from Cons.IH [OF rest, of "a + p" b] obtain t t' where
      "population_total_loop (a + p) cs = Inr (a + p + t)"
      "population_total_loop b (filter P cs) = Inr (b + t')" "0 \<le> t'" "t' \<le> t"
      by blast
    with p False show ?thesis
      by (intro exI [of _ "p + t"] exI [of _ "t'"]) simp
  qed
qed

text \<open>
  C7, as amended. When every county has a \<open>2014 Population\<close> that is not negative,
  \<open>population_total\<close> returns on the list and on the counties of any state, and the
  total of the state is at most the total of the list.
\<close>

theorem filter_by_state_total:
  assumes "list_all population_nonneg cs"
  shows "\<exists>t t'. population_total cs = Inr t \<and>
    population_total (filter_by_state cs s) = Inr t' \<and> t' \<le> t"
proof -
  from population_total_loop_filter [OF assms, of 0 0 "\<lambda>c. state c = s"]
  show ?thesis
    by (auto simp: population_total_def filter_by_state_def)
qed

theorem filter_by_state_total_witness:
  "list_all population_nonneg [autauga, crawford] \<and>
   population_total [autauga, crawford] = Inr 117092 \<and>
   population_total (filter_by_state [autauga, crawford] ''AL'') = Inr 55395"
proof -
  have nn: "list_all population_nonneg [autauga, crawford]"
    by (simp add: population_nonneg_def autauga_def crawford_def)
  from filter_by_state_total [OF nn, of "''AL''"] nn show ?thesis
    by (simp add: population_total_def filter_by_state_def autauga_def crawford_def)
qed

text \<open>
  A county of another state with a negative population makes the total of the state the
  larger one.
\<close>

theorem filter_by_state_total_counterexample:
  "population_total
     (filter_by_state
        [sample_county ''AL'' (Finite 0) 5, sample_county ''CA'' (Finite 0) (- 3)] ''AL'') =
     Inr 5 \<and>
   population_total [sample_county ''AL'' (Finite 0) 5, sample_county ''CA'' (Finite 0) (- 3)] =
     Inr 2 \<and>
   \<not> (5 :: int) \<le> 2"
  by (simp add: population_total_def filter_by_state_def sample_county_def)

section \<open>The concrete scenario\<close>

text \<open>
  C8. For a county with \<open>2014 Population = 55395\<close> and
  \<open>education["Bachelor's Degree or Higher"] = 20.9\<close>, alone in a list,
  \<open>population_by_education\<close> returns the float \<open>11577.555\<close>, and
  \<open>percent_by_education\<close> returns the float \<open>20.900000000000002\<close>, which is not
  \<open>20.9\<close> but the next binary64 number above it (\<open>20.9\<close> plus \<open>2 ^ -48\<close>), while
  the expression \<open>100 * sub_population / total_population\<close> evaluates to \<open>20.9\<close>.
\<close>

theorem single_county_scenario:
  assumes "education c bachelors = Some (py_float (209 / 10))"
    and "demographics c ''2014 Population'' = Some 55395"
  shows "population_by_education [c] bachelors = Inr (py_float (11577555 / 1000)) \<and>
    percent_by_education [c] bachelors =
      Inr (py_float (20900000000000002 / 1000000000000000)) \<and>
    py_float (20900000000000002 / 1000000000000000) \<noteq> py_float (209 / 10) \<and>
    py_float (20900000000000002 / 1000000000000000) =
      float_add (py_float (209 / 10)) (Finite (1 / 2 ^ 48)) \<and>
    percent_claimed (py_float (11577555 / 1000)) 55395 = Inr (py_float (209 / 10))"
proof (intro conjI)
  show "population_by_education [c] bachelors = Inr (py_float (11577555 / 1000))"
    unfolding literal_11577_555 by (rule single_county_sub_population [OF assms])
  show "percent_by_education [c] bachelors = Inr (py_float (20900000000000002 / 1000000000000000))"
    unfolding literal_20_900000000000002 by (rule single_county_percent [OF assms])
  show "py_float (20900000000000002 / 1000000000000000) \<noteq> py_float (209 / 10)"
    unfolding literal_20_900000000000002 literal_20_9 by simp
  show "py_float (20900000000000002 / 1000000000000000) =
      float_add (py_float (209 / 10)) (Finite (1 / 2 ^ 48))"
    by code_simp
  show "percent_claimed (py_float (11577555 / 1000)) 55395 = Inr (py_float (209 / 10))"
    unfolding literal_11577_555 literal_20_9 by (rule scenario_percent_claimed)
qed

theorem single_county_scenario_witness:
  "education autauga bachelors = Some (py_float (209 / 10)) \<and>
   demographics autauga ''2014 Population'' = Some 55395 \<and>
   population_by_education [autauga] bachelors = Inr (py_float (11577555 / 1000)) \<and>
   percent_by_education [autauga] bachelors =
     Inr (py_float (20900000000000002 / 1000000000000000)) \<and>
   py_float (20900000000000002 / 1000000000000000) \<noteq> py_float (209 / 10)"
proof -
  have e: "education autauga bachelors = Some (py_float (209 / 10))"
    by (simp add: autauga_def)
  have d: "demographics autauga ''2014 Population'' = Some 55395"
    by (simp add: autauga_def)
  from single_county_scenario [OF e d] e d show ?thesis by blast
qed

section \<open>Missing keys at and below the threshold zero\<close>

text \<open>
  C9. A county of the list whose mapping lacks the key is in neither filter for the
  threshold zero, and is in the greater-than filter for every threshold below zero; so for
  the education, the ethnicity and the poverty filters.
\<close>

theorem missing_key_thresholds:
  "(c \<in> set cs \<longrightarrow> education c k = None \<longrightarrow>
      c \<notin> set (education_greater_than cs k (Finite 0)) \<and>
      c \<notin> set (education_less_than cs k (Finite 0)) \<and>
      (float_lt t (Finite 0) \<longrightarrow> c \<in> set (education_greater_than cs k t))) \<and>
   (c \<in> set cs \<longrightarrow> ethnicity c k = None \<longrightarrow>
      c \<notin> set (ethnicity_greater_than cs k (Finite 0)) \<and>
      c \<notin> set (ethnicity_less_than cs k (Finite 0)) \<and>
      (float_lt t (Finite 0) \<longrightarrow> c \<in> set (ethnicity_greater_than cs k t))) \<and>
   (c \<in> set cs \<longrightarrow> income c ''Persons Below Poverty Level'' = None \<longrightarrow>
      c \<notin> set (below_poverty_level_greater_than cs (Finite 0)) \<and>
      c \<notin> set (below_poverty_level_less_than cs (Finite 0)) \<and>
      (float_lt t (Finite 0) \<longrightarrow> c \<in> set (below_poverty_level_greater_than cs t)))"
proof (intro conjI impI)
  assume "c \<in> set cs" and "education c k = None"
  then show "c \<notin> set (education_greater_than cs k (Finite 0))"
    and "c \<notin> set (education_less_than cs k (Finite 0))"
    by (simp_all add: education_greater_than_def education_less_than_def dict_get_def
        float_gt_def)
next
  assume "c \<in> set cs" and "education c k = None" and "float_lt t (Finite 0)"
  then show "c \<in> set (education_greater_than cs k t)"
    by (simp add: education_greater_than_def dict_get_def float_gt_def)
next
  assume "c \<in> set cs" and "ethnicity c k = None"
  then show "c \<notin> set (ethnicity_greater_than cs k (Finite 0))"
    and "c \<notin> set (ethnicity_less_than cs k (Finite 0))"
    by (simp_all add: ethnicity_greater_than_def ethnicity_less_than_def dict_get_def
        float_gt_def)
next
  assume "c \<in> set cs" and "ethnicity c k = None" and "float_lt t (Finite 0)"
  then show "c \<in> set (ethnicity_greater_than cs k t)"
    by (simp add: ethnicity_greater_than_def dict_get_def float_gt_def)
next
  assume "c \<in> set cs" and "income c ''Persons Below Poverty Level'' = None"
  then show "c \<notin> set (below_poverty_level_greater_than cs (Finite 0))"
    and "c \<notin> set (below_poverty_level_less_than cs (Finite 0))"
    by (simp_all add: below_poverty_level_greater_than_def below_poverty_level_less_than_def
        dict_get_def float_gt_def)
next
  assume "c \<in> set cs" and "income c ''Persons Below Poverty Level'' = None"
    and "float_lt t (Finite 0)"
  then show "c \<in> set (below_poverty_level_greater_than cs t)"
    by (simp add: below_poverty_level_greater_than_def dict_get_def float_gt_def)
qed

theorem missing_key_thresholds_witness:
  "bare_county \<in> set [bare_county] \<and> education bare_county bachelors = None \<and>
   ethnicity bare_county bachelors = None \<and>
   income bare_county ''Persons Below Poverty Level'' = None \<and>
   float_lt (Finite (- 1)) (Finite 0) \<and>
   education_greater_than [bare_county] bachelors (Finite 0) = [] \<and>
   education_less_than [bare_county] bachelors (Finite 0) = [] \<and>
   bare_county \<in> set (education_greater_than [bare_county] bachelors (Finite (- 1))) \<and>
   bare_county \<in> set (ethnicity_greater_than [bare_county] bachelors (Finite (- 1))) \<and>
   bare_county \<in> set (below_poverty_level_greater_than [bare_county] (Finite (- 1)))"
proof -
  have m: "bare_county \<in> set [bare_county]" by simp
  have e: "education bare_county bachelors = None"
    and h: "ethnicity bare_county bachelors = None"
    and i: "income bare_county ''Persons Below Poverty Level'' = None"
    by (simp_all add: bare_county_def)
  have t: "float_lt (Finite (- 1)) (Finite 0)" by simp
  have z: "education_greater_than [bare_county] bachelors (Finite 0) = []"
    "education_less_than [bare_county] bachelors (Finite 0) = []"
    by (simp_all add: education_greater_than_def education_less_than_def dict_get_def e
        float_gt_def)
  from missing_key_thresholds [of bare_county "[bare_county]" bachelors "Finite (- 1)"] m e h i t
  have "bare_county \<in> set (education_greater_than [bare_county] bachelors (Finite (- 1)))"
    and "bare_county \<in> set (ethnicity_greater_than [bare_county] bachelors (Finite (- 1)))"
    and "bare_county \<in> set (below_poverty_level_greater_than [bare_county] (Finite (- 1)))"
    by blast+
  with m e h i t z show ?thesis by blast
qed

section \<open>Concatenation\<close>

lemma population_total_loop_acc:
  "population_total_loop acc cs =
   (case population_total_loop 0 cs of Inl e \<Rightarrow> Inl e | Inr t \<Rightarrow> Inr (acc + t))"
proof (induction cs arbitrary: acc)
  case Nil
  show ?case by simp
next
  case (Cons c cs)
  show ?case
  proof (cases "demographics c ''2014 Population''")
    case None
    then show ?thesis by simp
  next
    case (Some p)
    have "population_total_loop (acc + p) cs =
      (case population_total_loop 0 cs of Inl e \<Rightarrow> Inl e | Inr t \<Rightarrow> Inr (acc + p + t))"
      by (rule Cons.IH)
    moreover have "population_total_loop p cs =
      (case population_total_loop 0 cs of Inl e \<Rightarrow> Inl e | Inr t \<Rightarrow> Inr (p + t))"
      by (rule Cons.IH)
    ultimately show ?thesis using Some
      by (simp split: sum.splits)
  qed
qed

lemma population_total_loop_append:
  "population_total_loop acc (cs @ ds) =
   (case population_total_loop acc cs of
      Inl e \<Rightarrow> Inl e
    | Inr a \<Rightarrow> population_total_loop a ds)"
  by (induction cs arbitrary: acc) (auto split: option.splits)

lemma population_total_append:
  "population_total (cs @ ds) =
   (case population_total cs of
      Inl e \<Rightarrow> Inl e
    | Inr a \<Rightarrow> (case population_total ds of Inl e \<Rightarrow> Inl e | Inr b \<Rightarrow> Inr (a + b)))"
proof (cases "population_total_loop 0 cs")
  case (Inl e)
  then show ?thesis by (simp add: population_total_def population_total_loop_append)
next
  case (Inr a)
  then show ?thesis
    using population_total_loop_acc [of a ds]
    by (simp add: population_total_def population_total_loop_append)
qed

text \<open>
  C10, as amended. \<open>population_total\<close> of a concatenation is the sum of the two totals
  (an error of either part is an error of the whole). A sub-population function on a
  concatenation continues the accumulation over the second list from the float it returns
  on the first; it does not add the separately rounded result of the second list.
\<close>

theorem concatenation:
  "population_total (cs @ ds) =
     (case population_total cs of
        Inl e \<Rightarrow> Inl e
      | Inr a \<Rightarrow> (case population_total ds of Inl e \<Rightarrow> Inl e | Inr b \<Rightarrow> Inr (a + b))) \<and>
   population_by_education (cs @ ds) key =
     (case population_by_education cs key of
        Inl e \<Rightarrow> Inl e
      | Inr a \<Rightarrow> population_by_education_loop key a ds) \<and>
   population_by_ethnicity (cs @ ds) key =
     (case population_by_ethnicity cs key of
        Inl e \<Rightarrow> Inl e
      | Inr a \<Rightarrow> population_by_ethnicity_loop key a ds) \<and>
   population_below_poverty_level (cs @ ds) =
     (case population_below_poverty_level cs of
        Inl e \<Rightarrow> Inl e
      | Inr a \<Rightarrow> population_below_poverty_level_loop a ds)"
proof (intro conjI)
  show "population_total (cs @ ds) =
     (case population_total cs of
        Inl e \<Rightarrow> Inl e
      | Inr a \<Rightarrow> (case population_total ds of Inl e \<Rightarrow> Inl e | Inr b \<Rightarrow> Inr (a + b)))"
    by (rule population_total_append)
  show "population_by_education (cs @ ds) key =
     (case population_by_education cs key of
        Inl e \<Rightarrow> Inl e
      | Inr a \<Rightarrow> population_by_education_loop key a ds)"
    unfolding population_by_education_def by (rule population_by_education_loop_append)
  show "population_by_ethnicity (cs @ ds) key =
     (case population_by_ethnicity cs key of
        Inl e \<Rightarrow> Inl e
      | Inr a \<Rightarrow> population_by_ethnicity_loop key a ds)"
    unfolding population_by_ethnicity_def by (rule population_by_ethnicity_loop_append)
  show "population_below_poverty_level (cs @ ds) =
     (case population_below_poverty_level cs of
        Inl e \<Rightarrow> Inl e
      | Inr a \<Rightarrow> population_below_poverty_level_loop a ds)"
    unfolding population_below_poverty_level_def
    by (rule population_below_poverty_level_loop_append)
qed

text \<open>
  Three counties of population 1 with the percentages \<open>10.0\<close>, \<open>20.0\<close> and
  \<open>30.0\<close>: on the whole list the sum is \<open>0.6000000000000001\<close>, while the results on
  the first county and on the other two add up to \<open>0.6\<close>.
\<close>

lemma split_sum_whole:
  "population_by_education
     ([sample_county ''AL'' (Finite 10) 1] @
      [sample_county ''AL'' (Finite 20) 1, sample_county ''AL'' (Finite 30) 1]) bachelors =
   Inr (Finite (1351079888211149 / 2251799813685248))"
  by code_simp

lemma split_sum_left:
  "population_by_education [sample_county ''AL'' (Finite 10) 1] bachelors =
   Inr (Finite (3602879701896397 / 36028797018963968))"
  by code_simp

lemma split_sum_right:
  "population_by_education
     [sample_county ''AL'' (Finite 20) 1, sample_county ''AL'' (Finite 30) 1] bachelors =
   Inr (Finite (1 / 2))"
  by code_simp

lemma split_sum_added:
  "float_add (Finite (3602879701896397 / 36028797018963968)) (Finite (1 / 2)) =
   Finite (5404319552844595 / 9007199254740992)"
  by code_simp

theorem concatenation_counterexample:
  "population_by_education
     ([sample_county ''AL'' (Finite 10) 1] @
      [sample_county ''AL'' (Finite 20) 1, sample_county ''AL'' (Finite 30) 1]) bachelors =
     Inr (Finite (1351079888211149 / 2251799813685248)) \<and>
   population_by_education [sample_county ''AL'' (Finite 10) 1] bachelors =
     Inr (Finite (3602879701896397 / 36028797018963968)) \<and>
   population_by_education
     [sample_county ''AL'' (Finite 20) 1, sample_county ''AL'' (Finite 30) 1] bachelors =
     Inr (Finite (1 / 2)) \<and>
   float_add (Finite (3602879701896397 / 36028797018963968)) (Finite (1 / 2)) =
     Finite (5404319552844595 / 9007199254740992) \<and>
   Finite (1351079888211149 / 2251799813685248) \<noteq>
     Finite (5404319552844595 / 9007199254740992)"
  using split_sum_whole split_sum_left split_sum_right split_sum_added by simp

end
